theory Spec2Isabelle
  imports Complex_Main "HOL-Library.Word" "HOL-Library.Sublist"
begin

section \<open>Multimodal action handlers of wllama (\<^verbatim>\<open>src/cpp/wllama-mtmd.hpp\<close>)\<close>

text \<open>
  The file defines two request handlers, \<^verbatim>\<open>action_init_mtmd\<close> and
  \<^verbatim>\<open>action_process_image\<close>, over three pieces of mutable state: the
  application object \<^verbatim>\<open>app\<close>, the global \<^verbatim>\<open>g_mtmd_ctx\<close> and the
  inference engine (llama.cpp, mtmd and the sampler helpers), which the handlers reach
  only through function calls.

  The engine is not part of the file. It is modelled as an oracle: every call the
  handlers make is appended to a trace, and the answer of the call is a function of the
  trace up to and including that call. Quantifying over the oracle quantifies over every
  behaviour of the engine. C++ scalars keep their width: \<^verbatim>\<open>int\<close>, \<^verbatim>\<open>int32_t\<close>,
  \<^verbatim>\<open>llama_pos\<close> and \<^verbatim>\<open>llama_token\<close> are 32-bit words, bytes are 8-bit words,
  pointers are addresses with \<open>None\<close> for \<^verbatim>\<open>nullptr\<close>.
\<close>

subsection \<open>Data\<close>

type_synonym addr = nat
type_synonym int32 = "32 word"
type_synonym llama_token = "32 word"
type_synonym llama_pos = "32 word"
type_synonym uint8 = "8 word"

text \<open>What a \<^verbatim>\<open>throw\<close> carries as far as the handlers can tell: an object derived
  from \<^verbatim>\<open>std::exception\<close> with its \<^verbatim>\<open>what()\<close> text, or anything else.\<close>

datatype exn = StdException string | OtherException

text \<open>The engine's types the handlers fill in (\<^verbatim>\<open>ggml.h\<close>, \<^verbatim>\<open>mtmd.h\<close>): the log
  levels and the parameter block of a multimodal context.\<close>

datatype ggml_log_level =
  GGML_LOG_LEVEL_NONE | GGML_LOG_LEVEL_DEBUG | GGML_LOG_LEVEL_INFO
  | GGML_LOG_LEVEL_WARN | GGML_LOG_LEVEL_ERROR | GGML_LOG_LEVEL_CONT

record mtmd_context_params =
  use_gpu :: bool
  print_timings :: bool
  n_threads :: int32
  verbosity :: ggml_log_level
  image_marker :: string

text \<open>The two request and two response structures (lines 21-54). The handlers receive a
  request already parsed; parsing and framing belong to the message codec.\<close>

record glue_msg_init_mtmd_req =
  mmproj_path :: string
  use_gpu :: bool
  n_threads :: int32
  image_marker :: string

record glue_msg_init_mtmd_res =
  success :: bool
  error :: string

record glue_msg_process_image_req =
  image_data :: "uint8 list"
  data_size :: int32
  width :: int32
  height :: int32
  prompt :: string
  use_cache :: bool

record glue_msg_process_image_res =
  success :: bool
  error :: string
  result :: string

text \<open>The bitmap and the input text given to the tokenizer (\<^verbatim>\<open>mtmd.h\<close>).\<close>

record mtmd_bitmap =
  nx :: int32
  ny :: int32
  data :: "uint8 list"
  id :: string

record mtmd_input_text =
  text' :: string
  add_special :: bool
  parse_special :: bool

text \<open>An encoded chunk is a run of text tokens or an image block of some number of
  embedding positions.\<close>

datatype mtmd_input_chunk = TextChunk "llama_token list" | ImageChunk nat

type_synonym mtmd_input_chunks = "mtmd_input_chunk list"

text \<open>The four sampling parameters the handler sets. \<^verbatim>\<open>0.7f\<close> and \<^verbatim>\<open>0.9f\<close> are
  single-precision literals; the fields hold the exact values of those floats,
  \<open>11744051 / 2 ^ 24\<close> and \<open>7549747 / 2 ^ 23\<close>.\<close>

record wcommon_sampler_params =
  temp :: rat
  top_k :: int32
  top_p :: rat
  n_prev :: int32

text \<open>One slot of \<^verbatim>\<open>app.batch\<close>: token, position, sequence ids, logits flag.\<close>

record batch_entry =
  token :: llama_token
  pos :: llama_pos
  seq_ids :: "int32 list"
  logits :: bool

type_synonym llama_batch = "batch_entry list"

text \<open>Modelled from the spec: \<^verbatim>\<open>app_t\<close> of \<^verbatim>\<open>actions.hpp\<close>, which is not among the
  sources. These are the four members the handlers use: the text model and the
  inference context (null until the host has loaded a model), the sampler, the batch.\<close>

record app_t =
  model :: "addr option"
  ctx :: "addr option"
  ctx_sampling :: "addr option"
  batch :: llama_batch

text \<open>Lines 57-70. The constructor leaves the pointer null and the flag unset.\<close>

record mtmd_context_wrapper =
  ctx :: "addr option"
  initialized :: bool

subsection \<open>The engine as an oracle over the trace of calls\<close>

datatype event =
    Call_mtmd_free addr
  | Call_mtmd_init_from_file string addr mtmd_context_params
  | Call_mtmd_tokenize addr mtmd_input_text "mtmd_bitmap list"
  | Call_llama_kv_cache_clear addr
  | Call_mtmd_helper_eval addr addr mtmd_input_chunks llama_pos int32 int32
  | Call_wcommon_sampler_free addr
  | Call_wcommon_sampler_init addr wcommon_sampler_params
  | Call_wcommon_sampler_sample "addr option" addr llama_pos
  | Call_llama_token_to_piece addr llama_token
  | Call_wcommon_sampler_accept "addr option" llama_token
  | Call_llama_decode addr llama_batch

text \<open>
  The trace is kept newest first. An oracle receives the trace whose head is the call
  being answered, and answers with a value or with the exception the call throws.
  Accessors that only read a constant of the model, the context or a chunk list
  (\<^verbatim>\<open>llama_n_batch\<close>, \<^verbatim>\<open>llama_token_eos\<close>, \<^verbatim>\<open>mtmd_helper_get_n_tokens\<close>) are plain
  functions. \<open>default_image_marker\<close> is the marker of a default-constructed
  \<^verbatim>\<open>mtmd_context_params\<close>; the other defaults of that structure are not needed, since
  the handler overwrites those fields. \<open>vector_resize n\<close> is the exception, if any,
  that \<^verbatim>\<open>std::vector<uint8_t>::resize(n)\<close> throws (\<^verbatim>\<open>length_error\<close>, \<^verbatim>\<open>bad_alloc\<close>),
  and \<open>std_hash\<close> is \<^verbatim>\<open>std::hash<std::string>\<close>.
\<close>

record engine =
  default_image_marker :: string
  mtmd_init_from_file :: "event list \<Rightarrow> exn + addr option"
  mtmd_tokenize :: "event list \<Rightarrow> exn + (int32 \<times> mtmd_input_chunks)"
  llama_kv_cache_clear :: "event list \<Rightarrow> exn + unit"
  llama_n_batch :: "addr \<Rightarrow> int32"
  mtmd_helper_eval :: "event list \<Rightarrow> exn + int32"
  mtmd_helper_get_n_tokens :: "mtmd_input_chunks \<Rightarrow> nat"
  wcommon_sampler_free :: "event list \<Rightarrow> exn + unit"
  wcommon_sampler_init :: "event list \<Rightarrow> exn + addr option"
  wcommon_sampler_sample :: "event list \<Rightarrow> exn + llama_token"
  llama_token_eos :: "addr \<Rightarrow> llama_token"
  llama_token_to_piece :: "event list \<Rightarrow> exn + string"
  wcommon_sampler_accept :: "event list \<Rightarrow> exn + unit"
  llama_decode :: "event list \<Rightarrow> exn + int32"
  vector_resize :: "nat \<Rightarrow> exn option"
  std_hash :: "uint8 list \<Rightarrow> nat"

text \<open>
  The state the handlers run in: \<^verbatim>\<open>app\<close>, the global \<^verbatim>\<open>g_mtmd_ctx\<close>, the
  multimodal contexts that are alive in the engine (created by
  \<^verbatim>\<open>mtmd_init_from_file\<close> and not yet given to \<^verbatim>\<open>mtmd_free\<close>) with the parameters
  they were created with, and the trace.
\<close>

record world =
  app :: app_t
  g_mtmd_ctx :: mtmd_context_wrapper
  mtmd_live :: "addr \<rightharpoonup> mtmd_context_params"
  trace :: "event list"

text \<open>How a statement of the \<^verbatim>\<open>try\<close> block of \<^verbatim>\<open>action_process_image\<close> ends: it
  throws, it returns the response from the handler, or it goes on with a value.\<close>

datatype 'a outcome = Throw exn | Return glue_msg_process_image_res | Value 'a

definition call :: "event \<Rightarrow> (event list \<Rightarrow> exn + 'a) \<Rightarrow> world \<Rightarrow> 'a outcome \<times> world" where
  "call ev answer w =
     (let tr = ev # trace w
      in (case answer tr of Inl e \<Rightarrow> Throw e | Inr a \<Rightarrow> Value a, w\<lparr>trace := tr\<rparr>))"

definition bind ::
  "(world \<Rightarrow> 'a outcome \<times> world) \<Rightarrow> ('a \<Rightarrow> world \<Rightarrow> 'b outcome \<times> world) \<Rightarrow>
   world \<Rightarrow> 'b outcome \<times> world" where
  "bind m f w =
     (case m w of
        (Throw e, w') \<Rightarrow> (Throw e, w')
      | (Return r, w') \<Rightarrow> (Return r, w')
      | (Value a, w') \<Rightarrow> f a w')"

text \<open>\<^verbatim>\<open>mtmd_free(p)\<close>: the context at \<open>p\<close> is no longer alive.\<close>

definition mtmd_free :: "addr \<Rightarrow> world \<Rightarrow> world" where
  "mtmd_free p w = w\<lparr>trace := Call_mtmd_free p # trace w, mtmd_live := (mtmd_live w)(p := None)\<rparr>"

subsection \<open>\<^verbatim>\<open>action_init_mtmd\<close> (lines 75-120)\<close>

text \<open>
  The result is \<open>Inr res\<close> when the handler returns \<open>res\<close>, and \<open>Inl e\<close> when an
  exception leaves the handler: its \<^verbatim>\<open>try\<close> has a handler for \<^verbatim>\<open>std::exception\<close>
  only. \<open>make_params\<close> is lines 95-103: a default-constructed parameter block with
  four fields overwritten, and the marker overwritten when the request names one.
\<close>

definition make_params :: "engine \<Rightarrow> glue_msg_init_mtmd_req \<Rightarrow> mtmd_context_params" where
  "make_params E req =
     \<lparr>mtmd_context_params.use_gpu = glue_msg_init_mtmd_req.use_gpu req,
      print_timings = True,
      n_threads = (if 0 <s glue_msg_init_mtmd_req.n_threads req
                   then glue_msg_init_mtmd_req.n_threads req else 1),
      verbosity = GGML_LOG_LEVEL_INFO,
      image_marker = (if glue_msg_init_mtmd_req.image_marker req \<noteq> []
                      then glue_msg_init_mtmd_req.image_marker req
                      else default_image_marker E)\<rparr>"

definition action_init_mtmd ::
  "engine \<Rightarrow> glue_msg_init_mtmd_req \<Rightarrow> world \<Rightarrow> (exn + glue_msg_init_mtmd_res) \<times> world" where
  "action_init_mtmd E req w =
     (let res = \<lparr>glue_msg_init_mtmd_res.success = False, error = []\<rparr> in
      case model (app w) of
        None \<Rightarrow>
          (Inr (res\<lparr>glue_msg_init_mtmd_res.error := ''Text model not loaded. Call loadModel() first.''\<rparr>), w)
      | Some m \<Rightarrow>
          let w1 = (case mtmd_context_wrapper.ctx (g_mtmd_ctx w) of
                      None \<Rightarrow> w
                    | Some p \<Rightarrow> (mtmd_free p w)\<lparr>g_mtmd_ctx :=
                        \<lparr>mtmd_context_wrapper.ctx = None, initialized = False\<rparr>\<rparr>);
              params = make_params E req;
              tr = Call_mtmd_init_from_file (mmproj_path req) m params # trace w1;
              w2 = w1\<lparr>trace := tr\<rparr>
          in case mtmd_init_from_file E tr of
               Inl (StdException what) \<Rightarrow>
                 (Inr (res\<lparr>glue_msg_init_mtmd_res.error := ''Exception: '' @ what\<rparr>), w2)
             | Inl OtherException \<Rightarrow> (Inl OtherException, w2)
             | Inr None \<Rightarrow>
                 (Inr (res\<lparr>glue_msg_init_mtmd_res.error := ''Failed to initialize multimodal context''\<rparr>),
                  w2\<lparr>g_mtmd_ctx := (g_mtmd_ctx w2)\<lparr>mtmd_context_wrapper.ctx := None\<rparr>\<rparr>)
             | Inr (Some p) \<Rightarrow>
                 (Inr (res\<lparr>glue_msg_init_mtmd_res.success := True\<rparr>),
                  w2\<lparr>g_mtmd_ctx := \<lparr>mtmd_context_wrapper.ctx = Some p, initialized = True\<rparr>,
                     mtmd_live := (mtmd_live w2)(p \<mapsto> params)\<rparr>))"

subsection \<open>\<^verbatim>\<open>action_process_image\<close> (lines 123-269)\<close>

text \<open>\<^verbatim>\<open>std::string::find\<close>: the first position at which the argument occurs, \<open>None\<close>
  for \<^verbatim>\<open>npos\<close>.\<close>

fun str_find :: "string \<Rightarrow> string \<Rightarrow> nat option" where
  "str_find [] m = (if m = [] then Some 0 else None)"
| "str_find (c # cs) m =
     (if prefix m (c # cs) then Some 0 else map_option Suc (str_find cs m))"

text \<open>\<^verbatim>\<open>std::to_string\<close> of an unsigned value: its decimal digits.\<close>

fun to_string :: "nat \<Rightarrow> string" where
  "to_string n =
     (if n < 10 then [''0123456789'' ! n]
      else to_string (n div 10) @ [''0123456789'' ! (n mod 10)])"

declare to_string.simps [simp del]

text \<open>The response as the handler first sets it up: \<^verbatim>\<open>success = false\<close>, both strings
  empty.\<close>

definition res0 :: glue_msg_process_image_res where
  "res0 = \<lparr>glue_msg_process_image_res.success = False, error = [], result = []\<rparr>"

definition return_res :: "glue_msg_process_image_res \<Rightarrow> world \<Rightarrow> 'a outcome \<times> world" where
  "return_res r w = (Return r, w)"

definition val :: "'a \<Rightarrow> world \<Rightarrow> 'a outcome \<times> world" where
  "val a w = (Value a, w)"

text \<open>
  Lines 146-161, the bitmap. \<^verbatim>\<open>req.width * req.height * 3\<close> is a product of
  \<^verbatim>\<open>int\<close>s, so it is computed in 32 bits; the product is then converted to
  \<^verbatim>\<open>size_t\<close> for \<^verbatim>\<open>resize\<close>, for the comparison with \<^verbatim>\<open>image_data.size()\<close> and for
  \<^verbatim>\<open>memcpy\<close>. The source does not guard the product against overflow. Signed
  overflow is undefined in C++; the model takes what the WebAssembly target of wllama
  computes, where \<^verbatim>\<open>i32.mul\<close> wraps around and \<^verbatim>\<open>size_t\<close> has 32 bits as well, so that
  the converted value is the unsigned reading of the same word. The vector is resized
  before the size is compared, and the bitmap holds the first \<open>n\<close> bytes of the
  buffer.
\<close>

definition make_bitmap :: "engine \<Rightarrow> glue_msg_process_image_req \<Rightarrow> world \<Rightarrow> mtmd_bitmap outcome \<times> world" where
  "make_bitmap E req =
     (let n = unat (width req * height req * 3) in
      case vector_resize E n of
        Some e \<Rightarrow> (\<lambda>w. (Throw e, w))
      | None \<Rightarrow>
          if n \<le> length (image_data req)
          then val \<lparr>nx = width req, ny = height req, data = take n (image_data req),
                    id = ''img_'' @ to_string (std_hash E (image_data req))\<rparr>
          else return_res (res0\<lparr>glue_msg_process_image_res.error :=
                 ''Image data size does not match dimensions''\<rparr>))"

text \<open>Lines 164-168, the prompt given to the tokenizer.\<close>

definition format_prompt :: "string \<Rightarrow> string" where
  "format_prompt p =
     (let formatted_prompt = p; image_marker = ''<__image__>''
      in if str_find formatted_prompt image_marker = None
         then formatted_prompt @ '' '' @ image_marker
         else formatted_prompt)"

text \<open>Modelled from the spec: \<^verbatim>\<open>llama_batch_clear\<close> and \<^verbatim>\<open>llama_batch_add\<close> of
  \<^verbatim>\<open>helpers/wcommon.h\<close>, which is not among the sources. The spec has the single token
  submitted as the next input at the current cursor: the batch is emptied and one slot
  is appended.\<close>

definition llama_batch_clear :: "llama_batch \<Rightarrow> llama_batch" where
  "llama_batch_clear b = []"

definition llama_batch_add ::
  "llama_batch \<Rightarrow> llama_token \<Rightarrow> llama_pos \<Rightarrow> int32 list \<Rightarrow> bool \<Rightarrow> llama_batch" where
  "llama_batch_add b t p ss l = b @ [\<lparr>token = t, pos = p, seq_ids = ss, logits = l\<rparr>]"

definition max_tokens :: nat where
  "max_tokens = 1024"

text \<open>
  Lines 231-256, the generation loop, entered with \<open>i = 0\<close>. \<open>m\<close> and \<open>c\<close> are
  \<^verbatim>\<open>app.model\<close> and \<^verbatim>\<open>app.ctx\<close>. The loop ends with the generated text (by
  \<^verbatim>\<open>break\<close> or because \<open>i\<close> reached \<open>max_tokens\<close>), with the handler returning the
  decode error, or with an exception.
\<close>

function gen_loop ::
  "engine \<Rightarrow> addr \<Rightarrow> addr \<Rightarrow> nat \<Rightarrow> llama_pos \<Rightarrow> string \<Rightarrow> world \<Rightarrow> string outcome \<times> world" where
  "gen_loop E m c i n_past generated_text w =
     (if i < max_tokens then
        bind (call (Call_wcommon_sampler_sample (ctx_sampling (app w)) c n_past)
                (wcommon_sampler_sample E)) (\<lambda>id.
        if id = llama_token_eos E m then val generated_text
        else
        bind (call (Call_llama_token_to_piece c id) (llama_token_to_piece E)) (\<lambda>token_str.
        bind (\<lambda>v. call (Call_wcommon_sampler_accept (ctx_sampling (app v)) id)
                (wcommon_sampler_accept E) v) (\<lambda>_.
        bind (\<lambda>v. val () (v\<lparr>app := (app v)\<lparr>batch :=
                llama_batch_add (llama_batch_clear (batch (app v))) id n_past [0] True\<rparr>\<rparr>)) (\<lambda>_.
        bind (\<lambda>v. call (Call_llama_decode c (batch (app v))) (llama_decode E) v) (\<lambda>rc.
        if rc \<noteq> 0
        then return_res (res0\<lparr>glue_msg_process_image_res.error := ''Failed to decode token''\<rparr>)
        else gen_loop E m c (i + 1) (n_past + 1) (generated_text @ token_str)))))) w
      else (Value generated_text, w))"
  by pat_completeness auto
termination
  by (relation "measure (\<lambda>(E, m, c, i, n_past, g, w). max_tokens - i)") auto

declare gen_loop.simps [simp del]

text \<open>Lines 193-225: chunk evaluation from a fresh \<^verbatim>\<open>n_past = 0\<close>, then the sampler.
  \<open>mc\<close> is \<^verbatim>\<open>g_mtmd_ctx.ctx\<close>. The value is \<^verbatim>\<open>n_past\<close> as the loop finds it.\<close>

definition eval_and_sampler ::
  "engine \<Rightarrow> addr \<Rightarrow> addr \<Rightarrow> addr \<Rightarrow> mtmd_input_chunks \<Rightarrow> world \<Rightarrow> llama_pos outcome \<times> world" where
  "eval_and_sampler E m c mc chunks =
     (let n_past = 0; n_batch = llama_n_batch E c in
      bind (call (Call_mtmd_helper_eval mc c chunks n_past 0 n_batch) (mtmd_helper_eval E)) (\<lambda>eval_result.
      if eval_result \<noteq> 0
      then return_res (res0\<lparr>glue_msg_process_image_res.error := ''Failed to evaluate chunks''\<rparr>)
      else
      let n_past = n_past + of_nat (mtmd_helper_get_n_tokens E chunks);
          sparams = \<lparr>temp = 11744051 / 16777216, top_k = 40, top_p = 7549747 / 8388608, n_prev = 64\<rparr>
      in
      bind (\<lambda>v. case ctx_sampling (app v) of
                   None \<Rightarrow> val () v
                 | Some s \<Rightarrow> call (Call_wcommon_sampler_free s) (wcommon_sampler_free E) v) (\<lambda>_.
      bind (call (Call_wcommon_sampler_init m sparams) (wcommon_sampler_init E)) (\<lambda>smpl.
      bind (\<lambda>v. val () (v\<lparr>app := (app v)\<lparr>ctx_sampling := smpl\<rparr>\<rparr>)) (\<lambda>_.
      val n_past)))))"

text \<open>Lines 145-225, the statements of the \<^verbatim>\<open>try\<close> block before the loop: bitmap,
  prompt, tokenization, cache, and then the evaluation and the sampler above.\<close>

definition prepare_generation ::
  "engine \<Rightarrow> glue_msg_process_image_req \<Rightarrow> addr \<Rightarrow> addr \<Rightarrow> addr \<Rightarrow> world \<Rightarrow>
   llama_pos outcome \<times> world" where
  "prepare_generation E req m c mc =
     bind (make_bitmap E req) (\<lambda>bitmap.
     let txt = \<lparr>text' = format_prompt (prompt req), add_special = True, parse_special = True\<rparr>;
         bitmaps = [bitmap]
     in
     bind (call (Call_mtmd_tokenize mc txt bitmaps) (mtmd_tokenize E)) (\<lambda>(tokenize_result, chunks).
     if tokenize_result \<noteq> 0
     then return_res (res0\<lparr>glue_msg_process_image_res.error := ''Failed to tokenize input with image''\<rparr>)
     else
     bind (if \<not> use_cache req
           then call (Call_llama_kv_cache_clear c) (llama_kv_cache_clear E)
           else val ()) (\<lambda>_.
     eval_and_sampler E m c mc chunks)))"

text \<open>Lines 145-260, the whole body of the \<^verbatim>\<open>try\<close> block: the preparation, the loop
  from \<open>i = 0\<close> with an empty text, and the successful response.\<close>

definition process_image_try ::
  "engine \<Rightarrow> glue_msg_process_image_req \<Rightarrow> addr \<Rightarrow> addr \<Rightarrow> addr \<Rightarrow> world \<Rightarrow>
   unit outcome \<times> world" where
  "process_image_try E req m c mc =
     bind (prepare_generation E req m c mc) (\<lambda>n_past.
     bind (gen_loop E m c 0 n_past []) (\<lambda>generated_text.
     return_res (res0\<lparr>glue_msg_process_image_res.success := True,
                     result := generated_text\<rparr>)))"

text \<open>Lines 262-268, the two \<^verbatim>\<open>catch\<close> clauses and the final \<^verbatim>\<open>return res\<close>: what
  the handler responds for each way the \<^verbatim>\<open>try\<close> block ends. An exception leaves
  \<^verbatim>\<open>success\<close> and \<^verbatim>\<open>result\<close> as they were set up.\<close>

definition catch :: "unit outcome \<Rightarrow> glue_msg_process_image_res" where
  "catch o1 =
     (case o1 of
        Return r \<Rightarrow> r
      | Value _ \<Rightarrow> res0
      | Throw (StdException what) \<Rightarrow>
          res0\<lparr>glue_msg_process_image_res.error := ''Exception: '' @ what\<rparr>
      | Throw OtherException \<Rightarrow>
          res0\<lparr>glue_msg_process_image_res.error :=
            ''Unknown error occurred during image processing''\<rparr>)"

text \<open>The handler: the three guards, then the \<^verbatim>\<open>try\<close> block with its
  \<^verbatim>\<open>catch\<close> clauses. Every path returns a response.\<close>

definition action_process_image ::
  "engine \<Rightarrow> glue_msg_process_image_req \<Rightarrow> world \<Rightarrow> glue_msg_process_image_res \<times> world" where
  "action_process_image E req w =
     (if model (app w) = None \<or> app_t.ctx (app w) = None
      then (res0\<lparr>glue_msg_process_image_res.error :=
              ''Text model not loaded. Call loadModel() first.''\<rparr>, w)
      else if \<not> initialized (g_mtmd_ctx w) \<or> mtmd_context_wrapper.ctx (g_mtmd_ctx w) = None
      then (res0\<lparr>glue_msg_process_image_res.error :=
              ''Multimodal context not initialized. Call initMultimodal() first.''\<rparr>, w)
      else if image_data req = [] \<or> width req \<le>s 0 \<or> height req \<le>s 0
      then (res0\<lparr>glue_msg_process_image_res.error := ''Invalid image data or dimensions''\<rparr>, w)
      else
        (case process_image_try E req (the (model (app w))) (the (app_t.ctx (app w)))
                (the (mtmd_context_wrapper.ctx (g_mtmd_ctx w))) w of
           (o1, w') \<Rightarrow> (catch o1, w')))"

subsection \<open>Reading a trace\<close>

text \<open>The calls a handler invocation added, newest first.\<close>

definition new_events :: "world \<Rightarrow> world \<Rightarrow> event list" where
  "new_events w w' = take (length (trace w') - length (trace w)) (trace w')"

fun is_sample :: "event \<Rightarrow> bool" where
  "is_sample (Call_wcommon_sampler_sample s c p) = True"
| "is_sample _ = False"

fun is_decode :: "event \<Rightarrow> bool" where
  "is_decode (Call_llama_decode c b) = True"
| "is_decode _ = False"

fun is_piece :: "event \<Rightarrow> bool" where
  "is_piece (Call_llama_token_to_piece c t) = True"
| "is_piece _ = False"

fun is_accept :: "event \<Rightarrow> bool" where
  "is_accept (Call_wcommon_sampler_accept s t) = True"
| "is_accept _ = False"

text \<open>The two calls that replace the sampler.\<close>

fun sampler_event :: "event \<Rightarrow> bool" where
  "sampler_event (Call_wcommon_sampler_free s) = True"
| "sampler_event (Call_wcommon_sampler_init m sp) = True"
| "sampler_event _ = False"

text \<open>The four calls of the generation loop.\<close>

definition loop_event :: "event \<Rightarrow> bool" where
  "loop_event ev = (is_sample ev \<or> is_piece ev \<or> is_accept ev \<or> is_decode ev)"

fun is_sampler_init :: "event \<Rightarrow> bool" where
  "is_sampler_init (Call_wcommon_sampler_init m sp) = True"
| "is_sampler_init _ = False"

text \<open>The text the engine handed out through \<^verbatim>\<open>llama_token_to_piece\<close> during the
  calls \<open>new\<close> that followed the trace \<open>base\<close>, in the order of the calls.\<close>

fun pieces :: "engine \<Rightarrow> event list \<Rightarrow> event list \<Rightarrow> string" where
  "pieces E base [] = []"
| "pieces E base (ev # new) =
     pieces E base new @
     (case ev of
        Call_llama_token_to_piece c t \<Rightarrow>
          (case llama_token_to_piece E (ev # new @ base) of Inr s \<Rightarrow> s | Inl e \<Rightarrow> [])
      | _ \<Rightarrow> [])"

fun is_kv_clear :: "event \<Rightarrow> bool" where
  "is_kv_clear (Call_llama_kv_cache_clear c) = True"
| "is_kv_clear _ = False"

text \<open>The positions \<^verbatim>\<open>n_past\<close> at which chunk evaluation was started.\<close>

fun eval_positions :: "event list \<Rightarrow> llama_pos list" where
  "eval_positions [] = []"
| "eval_positions (Call_mtmd_helper_eval mc c ch p s b # tr) = p # eval_positions tr"
| "eval_positions (ev # tr) = eval_positions tr"

text \<open>Every chunk evaluation of the trace comes directly after a clearing of the
  attention cache of the same inference context.\<close>

fun cleared_before_eval :: "event list \<Rightarrow> bool" where
  "cleared_before_eval [] = True"
| "cleared_before_eval (Call_mtmd_helper_eval mc c ch p s b # tr) =
     ((case tr of Call_llama_kv_cache_clear c' # _ \<Rightarrow> c' = c | _ \<Rightarrow> False)
      \<and> cleared_before_eval tr)"
| "cleared_before_eval (ev # tr) = cleared_before_eval tr"

text \<open>The texts given to the tokenizer.\<close>

fun tokenized_texts :: "event list \<Rightarrow> string list" where
  "tokenized_texts [] = []"
| "tokenized_texts (Call_mtmd_tokenize mc txt bs # tr) = text' txt # tokenized_texts tr"
| "tokenized_texts (ev # tr) = tokenized_texts tr"

text \<open>
  How the loop can end, read off the calls \<open>lp\<close> it made after the trace \<open>base\<close>
  when entered with counter \<open>i\<close> and text \<open>g\<close>:
  \<^item> with a text: the text is \<open>g\<close> followed by the pieces handed out; either no call was
    made, or the last call sampled the end-of-sequence token, or the last call was a
    decode answered with 0 and all remaining iterations were used;
  \<^item> with the handler returning: the response is the decode error, and the last call
    was a decode answered with a non-zero status;
  \<^item> with an exception: it is the answer to the last call.
\<close>

definition loop_exit ::
  "engine \<Rightarrow> addr \<Rightarrow> nat \<Rightarrow> string \<Rightarrow> event list \<Rightarrow> event list \<Rightarrow> string outcome \<Rightarrow> bool" where
  "loop_exit E m i g base lp out =
     (case out of
        Value g' \<Rightarrow> g' = g @ pieces E base lp \<and>
          (lp = [] \<or>
           (is_sample (hd lp) \<and> wcommon_sampler_sample E (lp @ base) = Inr (llama_token_eos E m)) \<or>
           (is_decode (hd lp) \<and> llama_decode E (lp @ base) = Inr 0
              \<and> length (filter is_sample lp) = max_tokens - i))
      | Return r \<Rightarrow>
          r = res0\<lparr>glue_msg_process_image_res.error := ''Failed to decode token''\<rparr>
          \<and> lp \<noteq> [] \<and> is_decode (hd lp)
          \<and> (\<exists>rc. llama_decode E (lp @ base) = Inr rc \<and> rc \<noteq> 0)
      | Throw e \<Rightarrow> lp \<noteq> []
          \<and> (is_sample (hd lp) \<longrightarrow> wcommon_sampler_sample E (lp @ base) = Inl e)
          \<and> (is_decode (hd lp) \<longrightarrow> llama_decode E (lp @ base) = Inl e))"

text \<open>
  What the statements before the loop leave behind, read off the calls \<open>sp\<close> they
  made: none of them is a call of the loop; chunk evaluation is started at most once and
  at position 0; the tokenizer is given the formatted prompt; the cache is cleared
  exactly when the request asks for no reuse; an early response has no text.
\<close>

definition prep_post ::
  "glue_msg_process_image_req \<Rightarrow> world \<Rightarrow> event list \<Rightarrow> llama_pos outcome \<Rightarrow> world \<Rightarrow> bool" where
  "prep_post req w sp out w1 =
     (trace w1 = sp @ trace w \<and> g_mtmd_ctx w1 = g_mtmd_ctx w \<and> mtmd_live w1 = mtmd_live w
      \<and> model (app w1) = model (app w) \<and> app_t.ctx (app w1) = app_t.ctx (app w)
      \<and> (\<forall>ev\<in>set sp. \<not> loop_event ev)
      \<and> (eval_positions sp = [] \<or> eval_positions sp = [0])
      \<and> (tokenized_texts sp = [] \<or> tokenized_texts sp = [format_prompt (prompt req)])
      \<and> (use_cache req \<longrightarrow> filter is_kv_clear sp = [])
      \<and> (\<not> use_cache req \<longrightarrow> cleared_before_eval sp)
      \<and> (case out of
            Value n \<Rightarrow> eval_positions sp = [0]
              \<and> tokenized_texts sp = [format_prompt (prompt req)]
          | Return r \<Rightarrow> \<not> glue_msg_process_image_res.success r \<and> result r = []
              \<and> glue_msg_process_image_res.error r \<noteq> ''Failed to decode token''
          | Throw e \<Rightarrow> True))"

text \<open>
  What a whole invocation of \<^verbatim>\<open>action_process_image\<close> guarantees about its response
  \<open>r\<close>, read off the calls \<open>new\<close> it made after the trace of \<open>w\<close>:
  \<^item> a successful response has no error text and carries exactly the pieces handed out;
  \<^item> a failed response carries no text;
  \<^item> if the last call was a decode, then a zero status means success after
    \<open>max_tokens\<close> samples, and a non-zero status means the decode error;
  \<^item> if the last call sampled the end-of-sequence token, the response is successful;
  \<^item> if the only sampling call is the last call, no piece was asked for.
\<close>

definition handler_post :: "engine \<Rightarrow> world \<Rightarrow> event list \<Rightarrow> glue_msg_process_image_res \<Rightarrow> bool" where
  "handler_post E w new r =
     ((glue_msg_process_image_res.success r \<longrightarrow>
         glue_msg_process_image_res.error r = [] \<and> result r = pieces E (trace w) new)
      \<and> (\<not> glue_msg_process_image_res.success r \<longrightarrow> result r = [])
      \<and> (new \<noteq> [] \<and> is_decode (hd new) \<longrightarrow>
           (\<forall>rc. llama_decode E (new @ trace w) = Inr rc \<longrightarrow>
              (if rc = 0
               then glue_msg_process_image_res.success r
                    \<and> length (filter is_sample new) = max_tokens
               else r = res0\<lparr>glue_msg_process_image_res.error := ''Failed to decode token''\<rparr>)))
      \<and> (new \<noteq> [] \<and> is_sample (hd new)
           \<and> (\<exists>m. model (app w) = Some m
                 \<and> wcommon_sampler_sample E (new @ trace w) = Inr (llama_token_eos E m))
           \<longrightarrow> glue_msg_process_image_res.success r)
      \<and> (new \<noteq> [] \<and> is_sample (hd new) \<and> filter is_sample (tl new) = []
           \<longrightarrow> filter is_piece new = []))"

subsection \<open>A scripted engine for concrete runs\<close>

text \<open>
  \<open>stub_engine toks rcs\<close> answers the \<open>k\<close>-th sampling call of a request with
  \<open>toks k\<close> and its \<open>k\<close>-th decode call with \<open>rcs k\<close> (counting from 0). Its
  end-of-sequence token is 2. Its tokenizer accepts a text exactly when the text
  contains the marker of the most recently created multimodal context. It builds no
  context from \<open>''missing.gguf''\<close> and throws on \<open>''corrupt.gguf''\<close>.
\<close>

fun configured_marker :: "string \<Rightarrow> event list \<Rightarrow> string" where
  "configured_marker d [] = d"
| "configured_marker d (Call_mtmd_init_from_file p m ps # tr) = mtmd_context_params.image_marker ps"
| "configured_marker d (ev # tr) = configured_marker d tr"

definition calls_in_request :: "(event \<Rightarrow> bool) \<Rightarrow> event list \<Rightarrow> nat" where
  "calls_in_request P tr = length (filter P (takeWhile (\<lambda>ev. \<not> is_sampler_init ev) tr))"

fun stub_init :: "event list \<Rightarrow> exn + addr option" where
  "stub_init (Call_mtmd_init_from_file p m ps # tr) =
     (if p = ''missing.gguf'' then Inr None
      else if p = ''corrupt.gguf'' then Inl (StdException ''bad projector file'')
      else Inr (Some (100 + length tr)))"
| "stub_init _ = Inr None"

fun stub_tokenize :: "event list \<Rightarrow> exn + (int32 \<times> mtmd_input_chunks)" where
  "stub_tokenize (Call_mtmd_tokenize mc txt bs # tr) =
     (if str_find (text' txt) (configured_marker ''<__image__>'' tr) = None
      then Inr (1, [])
      else Inr (0, [TextChunk [1, 15], ImageChunk 3]))"
| "stub_tokenize _ = Inr (1, [])"

fun stub_n_tokens :: "mtmd_input_chunks \<Rightarrow> nat" where
  "stub_n_tokens [] = 0"
| "stub_n_tokens (TextChunk ts # cs) = length ts + stub_n_tokens cs"
| "stub_n_tokens (ImageChunk n # cs) = n + stub_n_tokens cs"

fun stub_piece :: "event list \<Rightarrow> exn + string" where
  "stub_piece (Call_llama_token_to_piece c t # tr) = Inr (''t'' @ to_string (unat t) @ '' '')"
| "stub_piece _ = Inr []"

definition stub_engine :: "(nat \<Rightarrow> llama_token) \<Rightarrow> (nat \<Rightarrow> int32) \<Rightarrow> engine" where
  "stub_engine toks rcs =
     \<lparr>default_image_marker = ''<__image__>'',
      mtmd_init_from_file = stub_init,
      mtmd_tokenize = stub_tokenize,
      llama_kv_cache_clear = (\<lambda>tr. Inr ()),
      llama_n_batch = (\<lambda>c. 512),
      mtmd_helper_eval = (\<lambda>tr. Inr 0),
      mtmd_helper_get_n_tokens = stub_n_tokens,
      wcommon_sampler_free = (\<lambda>tr. Inr ()),
      wcommon_sampler_init = (\<lambda>tr. Inr (Some 17)),
      wcommon_sampler_sample = (\<lambda>tr. Inr (toks (calls_in_request is_sample tr - 1))),
      llama_token_eos = (\<lambda>m. 2),
      llama_token_to_piece = stub_piece,
      wcommon_sampler_accept = (\<lambda>tr. Inr ()),
      llama_decode = (\<lambda>tr. Inr (rcs (calls_in_request is_decode tr - 1))),
      vector_resize = (\<lambda>n. if 2 ^ 31 \<le> n then Some (StdException ''vector'') else None),
      std_hash = (\<lambda>bs. length bs)\<rparr>"

text \<open>An engine that samples token 10, token 11 and then end-of-sequence, and whose
  decode calls all succeed.\<close>

definition two_token_engine :: engine where
  "two_token_engine = stub_engine (\<lambda>k. if k < 2 then 10 + of_nat k else 2) (\<lambda>k. 0)"

text \<open>The state after the host has loaded a text model and before any multimodal
  request.\<close>

definition loaded_world :: world where
  "loaded_world =
     \<lparr>app = \<lparr>model = Some 11, app_t.ctx = Some 12, ctx_sampling = None, batch = []\<rparr>,
      g_mtmd_ctx = \<lparr>mtmd_context_wrapper.ctx = None, initialized = False\<rparr>,
      mtmd_live = Map.empty,
      trace = []\<rparr>"

definition init_req :: glue_msg_init_mtmd_req where
  "init_req = \<lparr>mmproj_path = ''mmproj.gguf'', glue_msg_init_mtmd_req.use_gpu = False,
                glue_msg_init_mtmd_req.n_threads = 0, glue_msg_init_mtmd_req.image_marker = []\<rparr>"

text \<open>A 2 by 1 image with its six bytes.\<close>

definition image_req :: glue_msg_process_image_req where
  "image_req = \<lparr>image_data = [1, 2, 3, 4, 5, 6], data_size = 6, width = 2, height = 1,
                 prompt = ''describe this'', use_cache = False\<rparr>"

definition ready_world :: world where
  "ready_world = snd (action_init_mtmd two_token_engine init_req loaded_world)"

text \<open>A request for a projector file the engine cannot build a context from.\<close>

definition missing_req :: glue_msg_init_mtmd_req where
  "missing_req = init_req\<lparr>mmproj_path := ''missing.gguf''\<rparr>"

definition failed_init_world :: world where
  "failed_init_world = snd (action_init_mtmd two_token_engine missing_req loaded_world)"

definition reinit_failed_world :: world where
  "reinit_failed_world = snd (action_init_mtmd two_token_engine missing_req ready_world)"

text \<open>Engines whose third decode call fails, whose first sampled token is
  end-of-sequence, and which never sample end-of-sequence.\<close>

definition failing_engine :: engine where
  "failing_engine = stub_engine (\<lambda>k. 10 + of_nat k) (\<lambda>k. if k = 2 then 1 else 0)"

definition eos_first_engine :: engine where
  "eos_first_engine = stub_engine (\<lambda>k. 2) (\<lambda>k. 0)"


text \<open>The same image sent again with the cache-reuse flag set, after a first request
  has been answered.\<close>

definition cached_req :: glue_msg_process_image_req where
  "cached_req = image_req\<lparr>use_cache := True\<rparr>"

definition after_first_world :: world where
  "after_first_world = snd (action_process_image two_token_engine image_req ready_world)"

definition after_second_world :: world where
  "after_second_world = snd (action_process_image two_token_engine cached_req after_first_world)"

text \<open>A one-byte buffer declared as a 65536 by 65536 image.\<close>

definition overflow_req :: glue_msg_process_image_req where
  "overflow_req = \<lparr>image_data = [0], data_size = 1, width = 65536, height = 65536,
                    prompt = ''describe this'', use_cache = False\<rparr>"

text \<open>A multimodal context created with the marker \<open>''<img>''\<close>.\<close>

definition custom_marker_req :: glue_msg_init_mtmd_req where
  "custom_marker_req = init_req\<lparr>glue_msg_init_mtmd_req.image_marker := ''<img>''\<rparr>"

definition custom_marker_world :: world where
  "custom_marker_world = snd (action_init_mtmd two_token_engine custom_marker_req loaded_world)"

text \<open>Requests answered in that state: the prompt without any marker, and a prompt
  that contains the configured marker.\<close>

definition marked_req :: glue_msg_process_image_req where
  "marked_req = image_req\<lparr>prompt := ''describe <img>''\<rparr>"

definition custom_unmarked_world :: world where
  "custom_unmarked_world = snd (action_process_image two_token_engine image_req custom_marker_world)"

definition custom_marked_world :: world where
  "custom_marked_world = snd (action_process_image two_token_engine marked_req custom_marker_world)"

definition overflow_world :: world where
  "overflow_world = snd (action_process_image two_token_engine overflow_req ready_world)"

text \<open>The positions at which single tokens were submitted to \<^verbatim>\<open>llama_decode\<close>.\<close>

fun decode_positions :: "event list \<Rightarrow> llama_pos list" where
  "decode_positions [] = []"
| "decode_positions (Call_llama_decode c b # tr) = map pos b @ decode_positions tr"
| "decode_positions (ev # tr) = decode_positions tr"

text \<open>The states the requests above lead to.\<close>

definition failed_decode_world :: world where
  "failed_decode_world = snd (action_process_image failing_engine image_req ready_world)"

definition eos_first_world :: world where
  "eos_first_world = snd (action_process_image eos_first_engine image_req ready_world)"


definition twice_ready_world :: world where
  "twice_ready_world = snd (action_init_mtmd two_token_engine init_req ready_world)"

text \<open>An engine whose \<^verbatim>\<open>mtmd_init_from_file\<close> and \<^verbatim>\<open>mtmd_tokenize\<close> throw something
  that is not a \<^verbatim>\<open>std::exception\<close>, and the state a re-initialization with it leads
  to.\<close>

definition throwing_engine :: engine where
  "throwing_engine = two_token_engine
     \<lparr>mtmd_init_from_file := (\<lambda>tr. Inl OtherException),
      mtmd_tokenize := (\<lambda>tr. Inl OtherException)\<rparr>"

definition reinit_thrown_world :: world where
  "reinit_thrown_world = snd (action_init_mtmd throwing_engine init_req ready_world)"

subsection \<open>States in which no initialization has succeeded\<close>

text \<open>
  \<^verbatim>\<open>g_mtmd_ctx\<close> starts as its constructor leaves it (line 61). \<open>never_initialized\<close>
  holds of the states reached from there by \<^verbatim>\<open>initMultimodal\<close> calls that did not
  succeed and by \<^verbatim>\<open>processImage\<close> calls.
\<close>

definition fresh_wrapper :: mtmd_context_wrapper where
  "fresh_wrapper = \<lparr>mtmd_context_wrapper.ctx = None, initialized = False\<rparr>"

inductive never_initialized :: "engine \<Rightarrow> world \<Rightarrow> bool" for E :: engine where
  start: "g_mtmd_ctx w = fresh_wrapper \<Longrightarrow> never_initialized E w"
| failed_init:
    "never_initialized E w \<Longrightarrow> action_init_mtmd E req w = (out, w') \<Longrightarrow>
     out \<noteq> Inr \<lparr>glue_msg_init_mtmd_res.success = True, error = []\<rparr> \<Longrightarrow>
     never_initialized E w'"
| processed:
    "never_initialized E w \<Longrightarrow> action_process_image E preq w = (r, w') \<Longrightarrow>
     never_initialized E w'"

section \<open>Properties\<close>

subsection \<open>The generation loop\<close>

lemma pieces_append: "pieces E base (a @ b) = pieces E base b @ pieces E (b @ base) a"
  by (induction a) (auto split: event.splits sum.splits)

lemma gen_loop_spec:
  "gen_loop E m c i n_past g w = (out, w') \<Longrightarrow>
   \<exists>lp. trace w' = lp @ trace w \<and> g_mtmd_ctx w' = g_mtmd_ctx w \<and> mtmd_live w' = mtmd_live w
     \<and> model (app w') = model (app w) \<and> app_t.ctx (app w') = app_t.ctx (app w)
     \<and> (\<forall>ev\<in>set lp. loop_event ev)
     \<and> length (filter is_sample lp) \<le> max_tokens - i
     \<and> (lp \<noteq> [] \<longrightarrow> is_sample (last lp))
     \<and> (lp = [] \<longrightarrow> max_tokens \<le> i)
     \<and> (\<forall>c' t. Call_llama_token_to_piece c' t \<in> set lp \<longrightarrow> t \<noteq> llama_token_eos E m)
     \<and> loop_exit E m i g (trace w) lp out"
proof (induction E m c i n_past g w arbitrary: out w' rule: gen_loop.induct)
  case (1 E m c i n_past g w)
  note unf = gen_loop.simps[of E m c i n_past g w]
  note defs = bind_def call_def val_def return_res_def loop_event_def loop_exit_def
  show ?case
  proof (cases "i < max_tokens")
    case False
    with "1.prems" show ?thesis by (auto simp: unf loop_exit_def)
  next
    case True
    note lt = True
    let ?ev1 = "Call_wcommon_sampler_sample (ctx_sampling (app w)) c n_past"
    let ?t1 = "?ev1 # trace w"
    show ?thesis
    proof (cases "wcommon_sampler_sample E ?t1")
      case (Inl e)
      with "1.prems" lt show ?thesis
        by (auto simp: unf defs)
    next
      case a1: (Inr tok)
      show ?thesis
      proof (cases "tok = llama_token_eos E m")
        case True
        with "1.prems" lt a1 show ?thesis
          by (auto simp: unf defs)
      next
        case neos: False
        let ?ev2 = "Call_llama_token_to_piece c tok"
        let ?t2 = "?ev2 # ?t1"
        show ?thesis
        proof (cases "llama_token_to_piece E ?t2")
          case (Inl e)
          with "1.prems" lt a1 neos show ?thesis
            by (auto simp: unf defs)
        next
          case a2: (Inr str)
          let ?ev3 = "Call_wcommon_sampler_accept (ctx_sampling (app w)) tok"
          let ?t3 = "?ev3 # ?t2"
          show ?thesis
          proof (cases "wcommon_sampler_accept E ?t3")
            case (Inl e)
            with "1.prems" lt a1 neos a2 show ?thesis
              by (auto simp: unf defs)
          next
            case a3: (Inr u)
            let ?b = "llama_batch_add (llama_batch_clear (batch (app w))) tok n_past [0] True"
            let ?ev4 = "Call_llama_decode c ?b"
            let ?t4 = "?ev4 # ?t3"
            show ?thesis
            proof (cases "llama_decode E ?t4")
              case (Inl e)
              with "1.prems" lt a1 neos a2 a3 show ?thesis
                by (auto simp: unf defs)
            next
              case a4: (Inr rc)
              show ?thesis
              proof (cases "rc = 0")
                case False
                with "1.prems" lt a1 neos a2 a3 a4 show ?thesis
                  by (auto simp: unf defs)
              next
                case True
                let ?w5 = "w\<lparr>app := (app w)\<lparr>batch := ?b\<rparr>, trace := ?t4\<rparr>"
                have rec: "gen_loop E m c (i + 1) (n_past + 1) (g @ str) ?w5 = (out, w')"
                  using "1.prems" lt a1 neos a2 a3 a4 True
                  by (simp add: unf defs)
                from "1.IH"[OF lt neos _ rec, of rc] True
                obtain lp where lp: "trace w' = lp @ ?t4"
                  and fr: "g_mtmd_ctx w' = g_mtmd_ctx w" "mtmd_live w' = mtmd_live w"
                     "model (app w') = model (app w)" "app_t.ctx (app w') = app_t.ctx (app w)"
                  and ev: "\<forall>ev\<in>set lp. loop_event ev"
                  and cnt: "length (filter is_sample lp) \<le> max_tokens - (i + 1)"
                  and emp: "lp = [] \<longrightarrow> max_tokens \<le> i + 1"
                  and eos: "\<forall>c' t. Call_llama_token_to_piece c' t \<in> set lp \<longrightarrow> t \<noteq> llama_token_eos E m"
                  and out: "loop_exit E m (i + 1) (g @ str) ?t4 lp out"
                  by auto
                let ?lp = "lp @ [?ev4, ?ev3, ?ev2, ?ev1]"
                have p: "pieces E (trace w) ?lp = str @ pieces E ?t4 lp"
                  using a2 by (simp add: pieces_append)
                have c1: "trace w' = ?lp @ trace w" using lp by simp
                have c2: "\<forall>ev\<in>set ?lp. loop_event ev" using ev by (auto simp: loop_event_def)
                have c3: "length (filter is_sample ?lp) \<le> max_tokens - i" using cnt lt by simp
                have c3': "length (filter is_sample ?lp) = length (filter is_sample lp) + 1" by simp
                have c4: "is_sample (last ?lp)" by simp
                have c5: "\<forall>c' t. Call_llama_token_to_piece c' t \<in> set ?lp \<longrightarrow> t \<noteq> llama_token_eos E m"
                  using eos neos by auto
                have hd: "hd ?lp = (if lp = [] then ?ev4 else hd lp)" by (cases lp) auto
                have app: "?lp @ trace w = lp @ ?t4" by simp
                have c6: "loop_exit E m i g (trace w) ?lp out"
                proof (cases out)
                  case (Throw e)
                  with out show ?thesis unfolding loop_exit_def app by (simp add: hd)
                next
                  case (Return r)
                  with out show ?thesis unfolding loop_exit_def app by (simp add: hd)
                next
                  case (Value g')
                  show ?thesis
                  proof (cases "lp = []")
                    case True
                    with Value out emp lt a2 a4 \<open>rc = 0\<close> show ?thesis
                      unfolding loop_exit_def app by (auto simp: p)
                  next
                    case False
                    with Value out lt show ?thesis
                      unfolding loop_exit_def app p hd c3' by auto
                  qed
                qed
                show ?thesis
                  apply (rule exI[of _ ?lp])
                  using c1 fr c2 c3 c4 c5 c6 by simp
              qed
            qed
          qed
        qed
      qed
    qed
  qed
qed
subsection \<open>The statements before the loop\<close>

lemma eval_and_sampler_spec:
  assumes run: "eval_and_sampler E m c mc chunks w = (out, w1)"
  shows "\<exists>pre. trace w1 = pre @ Call_mtmd_helper_eval mc c chunks 0 0 (llama_n_batch E c) # trace w
     \<and> (\<forall>ev\<in>set pre. sampler_event ev)
     \<and> g_mtmd_ctx w1 = g_mtmd_ctx w \<and> mtmd_live w1 = mtmd_live w
     \<and> model (app w1) = model (app w) \<and> app_t.ctx (app w1) = app_t.ctx (app w)
     \<and> (case out of
          Value n \<Rightarrow> True
        | Return r \<Rightarrow> r = res0\<lparr>glue_msg_process_image_res.error := ''Failed to evaluate chunks''\<rparr>
        | Throw e \<Rightarrow> True)"
proof -
  note defs = eval_and_sampler_def bind_def call_def val_def return_res_def Let_def
  let ?e3 = "Call_mtmd_helper_eval mc c chunks 0 0 (llama_n_batch E c)"
  let ?t3 = "?e3 # trace w"
  let ?e5 = "Call_wcommon_sampler_init m \<lparr>temp = 11744051 / 16777216, top_k = 40, top_p = 7549747 / 8388608, n_prev = 64\<rparr>"
  show ?thesis
  proof (cases "mtmd_helper_eval E ?t3")
    case (Inl e)
    with run have "out = Throw e \<and> w1 = w\<lparr>trace := ?t3\<rparr>" by (simp add: defs)
    then show ?thesis by (intro exI[of _ "[]"]) simp
  next
    case a3: (Inr rc)
    show ?thesis
    proof (cases "rc = 0")
      case False
      with run a3 have "out = Return (res0\<lparr>glue_msg_process_image_res.error := ''Failed to evaluate chunks''\<rparr>)
          \<and> w1 = w\<lparr>trace := ?t3\<rparr>" by (simp add: defs)
      then show ?thesis by (intro exI[of _ "[]"]) simp
    next
      case rc0: True
      show ?thesis
      proof (cases "ctx_sampling (app w)")
        case None
        let ?t5 = "?e5 # ?t3"
        show ?thesis
        proof (cases "wcommon_sampler_init E ?t5")
          case (Inl e)
          with run a3 rc0 None have "out = Throw e \<and> w1 = w\<lparr>trace := ?t5\<rparr>" by (auto simp: defs)
          then show ?thesis by (intro exI[of _ "[?e5]"]) simp
        next
          case (Inr smpl)
          with run a3 rc0 None have "out = Value (of_nat (mtmd_helper_get_n_tokens E chunks))
            \<and> w1 = w\<lparr>app := (app w)\<lparr>ctx_sampling := smpl\<rparr>, trace := ?t5\<rparr>" by (auto simp: defs)
          then show ?thesis by (intro exI[of _ "[?e5]"]) simp
        qed
      next
        case (Some s)
        let ?e4 = "Call_wcommon_sampler_free s"
        let ?t4 = "?e4 # ?t3"
        show ?thesis
        proof (cases "wcommon_sampler_free E ?t4")
          case (Inl e)
          with run a3 rc0 Some have "out = Throw e \<and> w1 = w\<lparr>trace := ?t4\<rparr>" by (simp add: defs)
          then show ?thesis by (intro exI[of _ "[?e4]"]) simp
        next
          case a4: (Inr u)
          let ?t5 = "?e5 # ?t4"
          show ?thesis
          proof (cases "wcommon_sampler_init E ?t5")
            case (Inl e)
            with run a3 rc0 Some a4 have "out = Throw e \<and> w1 = w\<lparr>trace := ?t5\<rparr>" by (auto simp: defs)
            then show ?thesis by (intro exI[of _ "[?e5, ?e4]"]) simp
          next
            case (Inr smpl)
            with run a3 rc0 Some a4 have "out = Value (of_nat (mtmd_helper_get_n_tokens E chunks))
              \<and> w1 = w\<lparr>app := (app w)\<lparr>ctx_sampling := smpl\<rparr>, trace := ?t5\<rparr>" by (auto simp: defs)
            then show ?thesis by (intro exI[of _ "[?e5, ?e4]"]) simp
          qed
        qed
      qed
    qed
  qed
qed

lemma sampler_prefix:
  assumes "\<forall>ev\<in>set pre. sampler_event ev"
  shows "eval_positions (pre @ xs) = eval_positions xs"
    and "tokenized_texts (pre @ xs) = tokenized_texts xs"
    and "filter is_kv_clear (pre @ xs) = filter is_kv_clear xs"
    and "cleared_before_eval (pre @ xs) = cleared_before_eval xs"
    and "\<forall>ev\<in>set pre. \<not> loop_event ev"
  using assms
proof (induction pre)
  case Nil
  { case 1 show ?case by simp }
  { case 2 show ?case by simp }
  { case 3 show ?case by simp }
  { case 4 show ?case by simp }
  { case 5 show ?case by simp }
next
  case (Cons a pre)
  { case 1 with Cons show ?case by (cases a) auto }
  { case 2 with Cons show ?case by (cases a) auto }
  { case 3 with Cons show ?case by (cases a) auto }
  { case 4 with Cons show ?case by (cases a) auto }
  { case 5 with Cons show ?case by (cases a) (auto simp: loop_event_def) }
qed

lemma prepare_generation_spec:
  assumes run: "prepare_generation E req m c mc w = (out, w1)"
  shows "\<exists>sp. prep_post req w sp out w1"
proof -
  note defs = prepare_generation_def make_bitmap_def bind_def call_def val_def return_res_def
    Let_def
  note posts = prep_post_def loop_event_def res0_def
  let ?n = "unat (width req * height req * 3)"
  let ?bm = "\<lparr>nx = width req, ny = height req, data = take ?n (image_data req),
              id = ''img_'' @ to_string (std_hash E (image_data req))\<rparr>"
  let ?txt = "\<lparr>text' = format_prompt (prompt req), add_special = True, parse_special = True\<rparr>"
  let ?e1 = "Call_mtmd_tokenize mc ?txt [?bm]"
  let ?t1 = "?e1 # trace w"
  let ?e2 = "Call_llama_kv_cache_clear c"
  let ?t2 = "?e2 # ?t1"
  show ?thesis
  proof (cases "vector_resize E ?n")
    case (Some e)
    with run have "out = Throw e \<and> w1 = w" by (simp add: defs)
    then show ?thesis by (intro exI[of _ "[]"]) (simp add: posts)
  next
    case r0: None
    show ?thesis
    proof (cases "?n \<le> length (image_data req)")
      case False
      with run r0 have "out = Return (res0\<lparr>glue_msg_process_image_res.error :=
                 ''Image data size does not match dimensions''\<rparr>) \<and> w1 = w"
        by (simp add: defs)
      then show ?thesis by (intro exI[of _ "[]"]) (simp add: posts)
    next
      case fit: True
      show ?thesis
      proof (cases "mtmd_tokenize E ?t1")
        case (Inl e)
        with run r0 fit have "out = Throw e \<and> w1 = w\<lparr>trace := ?t1\<rparr>" by (simp add: defs)
        then show ?thesis by (intro exI[of _ "[?e1]"]) (simp add: posts)
      next
        case (Inr pr)
        obtain rc chunks where pr: "pr = (rc, chunks)" by (cases pr)
        note a1 = Inr[unfolded pr]
        let ?e3 = "Call_mtmd_helper_eval mc c chunks 0 0 (llama_n_batch E c)"
        show ?thesis
        proof (cases "rc = 0")
          case False
          with run r0 fit a1 have "out = Return (res0\<lparr>glue_msg_process_image_res.error :=
                 ''Failed to tokenize input with image''\<rparr>) \<and> w1 = w\<lparr>trace := ?t1\<rparr>"
            by (simp add: defs)
          then show ?thesis by (intro exI[of _ "[?e1]"]) (simp add: posts)
        next
          case rc0: True
          show ?thesis
          proof (cases "use_cache req")
            case uc: True
            with run r0 fit a1 rc0
            have "eval_and_sampler E m c mc chunks (w\<lparr>trace := ?t1\<rparr>) = (out, w1)"
              by (simp add: defs)
            from eval_and_sampler_spec[OF this] obtain pre where
              pre: "trace w1 = pre @ ?e3 # ?t1" "\<forall>ev\<in>set pre. sampler_event ev"
              and fr: "g_mtmd_ctx w1 = g_mtmd_ctx w" "mtmd_live w1 = mtmd_live w"
                "model (app w1) = model (app w)" "app_t.ctx (app w1) = app_t.ctx (app w)"
              and o: "case out of Value n \<Rightarrow> True
                | Return r \<Rightarrow> r = res0\<lparr>glue_msg_process_image_res.error := ''Failed to evaluate chunks''\<rparr>
                | Throw e \<Rightarrow> True"
              by auto
            show ?thesis
              apply (intro exI[of _ "pre @ [?e3, ?e1]"])
              using pre fr o uc sampler_prefix[OF pre(2)]
              by (simp add: posts split: outcome.splits)
          next
            case uc: False
            show ?thesis
            proof (cases "llama_kv_cache_clear E ?t2")
              case (Inl e)
              with run r0 fit a1 rc0 uc have "out = Throw e \<and> w1 = w\<lparr>trace := ?t2\<rparr>"
                by (simp add: defs)
              with uc show ?thesis by (intro exI[of _ "[?e2, ?e1]"]) (simp add: posts)
            next
              case (Inr u)
              with run r0 fit a1 rc0 uc
              have "eval_and_sampler E m c mc chunks (w\<lparr>trace := ?t2\<rparr>) = (out, w1)"
                by (simp add: defs)
              from eval_and_sampler_spec[OF this] obtain pre where
                pre: "trace w1 = pre @ ?e3 # ?t2" "\<forall>ev\<in>set pre. sampler_event ev"
                and fr: "g_mtmd_ctx w1 = g_mtmd_ctx w" "mtmd_live w1 = mtmd_live w"
                  "model (app w1) = model (app w)" "app_t.ctx (app w1) = app_t.ctx (app w)"
                and o: "case out of Value n \<Rightarrow> True
                  | Return r \<Rightarrow> r = res0\<lparr>glue_msg_process_image_res.error := ''Failed to evaluate chunks''\<rparr>
                  | Throw e \<Rightarrow> True"
                by auto
              show ?thesis
                apply (intro exI[of _ "pre @ [?e3, ?e2, ?e1]"])
                using pre fr o uc sampler_prefix[OF pre(2)]
                by (simp add: posts split: outcome.splits)
            qed
          qed
        qed
      qed
    qed
  qed
qed
subsection \<open>The whole handler\<close>

lemma loop_prefix:
  assumes "\<forall>ev\<in>set lp. loop_event ev"
  shows "eval_positions (lp @ xs) = eval_positions xs"
    and "tokenized_texts (lp @ xs) = tokenized_texts xs"
    and "filter is_kv_clear (lp @ xs) = filter is_kv_clear xs"
    and "cleared_before_eval (lp @ xs) = cleared_before_eval xs"
  using assms
proof (induction lp)
  case Nil
  { case 1 show ?case by simp }
  { case 2 show ?case by simp }
  { case 3 show ?case by simp }
  { case 4 show ?case by simp }
next
  case (Cons a lp)
  { case 1 with Cons show ?case by (cases a) (auto simp: loop_event_def) }
  { case 2 with Cons show ?case by (cases a) (auto simp: loop_event_def) }
  { case 3 with Cons show ?case by (cases a) (auto simp: loop_event_def) }
  { case 4 with Cons show ?case by (cases a) (auto simp: loop_event_def) }
qed

lemma no_loop_events:
  assumes "\<forall>ev\<in>set sp. \<not> loop_event ev"
  shows "filter is_sample sp = []" and "filter is_piece sp = []" and "pieces E b sp = []"
    and "sp \<noteq> [] \<longrightarrow> \<not> is_sample (hd sp) \<and> \<not> is_decode (hd sp)"
    and "Call_llama_token_to_piece c t \<notin> set sp"
  using assms
proof (induction sp)
  case Nil
  { case 1 show ?case by simp }
  { case 2 show ?case by simp }
  { case 3 show ?case by simp }
  { case 4 show ?case by simp }
  { case 5 show ?case by simp }
next
  case (Cons a sp)
  { case 1 with Cons show ?case by (auto simp: loop_event_def) }
  { case 2 with Cons show ?case by (auto simp: loop_event_def) }
  { case 3 with Cons show ?case by (cases a) (auto simp: loop_event_def) }
  { case 4 with Cons show ?case by (auto simp: loop_event_def) }
  { case 5 with Cons show ?case by (auto simp: loop_event_def) }
qed

lemma only_sample:
  assumes "lp \<noteq> []" "is_sample (last lp)" "filter is_sample (tl lp) = []"
  shows "tl lp = []"
proof (rule ccontr)
  assume ne: "tl lp \<noteq> []"
  then have "last lp = last (tl lp)" using assms(1) by (cases lp) auto
  with assms(2) ne have "last (tl lp) \<in> set (tl lp)" "is_sample (last (tl lp))" by auto
  with assms(3) show False by (auto simp: filter_empty_conv)
qed


lemma catch_throw:
  "\<not> glue_msg_process_image_res.success (catch (Throw e))" "result (catch (Throw e)) = []"
  "catch (Throw e) \<noteq> res0\<lparr>glue_msg_process_image_res.error := ''Failed to decode token''\<rparr>"
  by (cases e; simp add: catch_def res0_def)+

lemma action_process_image_spec:
  assumes run: "action_process_image E req w = (r, w')"
  shows "\<exists>new. trace w' = new @ trace w \<and> g_mtmd_ctx w' = g_mtmd_ctx w \<and> mtmd_live w' = mtmd_live w
     \<and> model (app w') = model (app w) \<and> app_t.ctx (app w') = app_t.ctx (app w)
     \<and> length (filter is_sample new) \<le> max_tokens
     \<and> (eval_positions new = [] \<or> eval_positions new = [0])
     \<and> (tokenized_texts new = [] \<or> tokenized_texts new = [format_prompt (prompt req)])
     \<and> (use_cache req \<longrightarrow> filter is_kv_clear new = [])
     \<and> (\<not> use_cache req \<longrightarrow> cleared_before_eval new)
     \<and> (glue_msg_process_image_res.success r \<longrightarrow>
           eval_positions new = [0] \<and> tokenized_texts new = [format_prompt (prompt req)])
     \<and> (\<forall>c' t m. Call_llama_token_to_piece c' t \<in> set new \<longrightarrow> model (app w) = Some m
           \<longrightarrow> t \<noteq> llama_token_eos E m)
     \<and> handler_post E w new r"
    (is "\<exists>new. ?P new")
proof -
  have early: "?P []" if "w' = w" "\<not> glue_msg_process_image_res.success r" "result r = []"
    using that by (simp add: handler_post_def)
  show ?thesis
  proof (cases "model (app w) = None \<or> app_t.ctx (app w) = None")
    case True
    with run have "w' = w \<and> r = res0\<lparr>glue_msg_process_image_res.error :=
              ''Text model not loaded. Call loadModel() first.''\<rparr>"
      by (auto simp: action_process_image_def)
    then show ?thesis by (intro exI[of _ "[]"] early) (simp_all add: res0_def)
  next
    case g1: False
    show ?thesis
    proof (cases "\<not> initialized (g_mtmd_ctx w) \<or> mtmd_context_wrapper.ctx (g_mtmd_ctx w) = None")
      case True
      with run g1 have "w' = w \<and> r = res0\<lparr>glue_msg_process_image_res.error :=
              ''Multimodal context not initialized. Call initMultimodal() first.''\<rparr>"
        by (auto simp: action_process_image_def)
      then show ?thesis by (intro exI[of _ "[]"] early) (simp_all add: res0_def)
    next
      case g2: False
      show ?thesis
      proof (cases "image_data req = [] \<or> width req \<le>s 0 \<or> height req \<le>s 0")
        case True
        with run g1 g2 have "w' = w \<and> r = res0\<lparr>glue_msg_process_image_res.error :=
              ''Invalid image data or dimensions''\<rparr>"
          by (auto simp: action_process_image_def)
        then show ?thesis by (intro exI[of _ "[]"] early) (simp_all add: res0_def)
      next
        case g3: False
        from g1 g2 obtain m c mc where mc: "model (app w) = Some m" "app_t.ctx (app w) = Some c"
          "mtmd_context_wrapper.ctx (g_mtmd_ctx w) = Some mc" by auto
        obtain o1 w2 where t: "process_image_try E req m c mc w = (o1, w2)" by fastforce
        with run g1 g2 g3 mc have r: "r = catch o1" and w2: "w2 = w'"
          by (auto simp: action_process_image_def)
        obtain out1 w1 where p: "prepare_generation E req m c mc w = (out1, w1)" by fastforce
        from prepare_generation_spec[OF p] obtain sp where sp: "prep_post req w sp out1 w1" ..
        note spd = sp[unfolded prep_post_def]
        from spd have nl: "\<forall>ev\<in>set sp. \<not> loop_event ev" by simp
        note nls = no_loop_events[OF nl]
        show ?thesis
        proof (cases out1)
          case (Throw e)
          with t p have "o1 = Throw e" "w2 = w1" by (auto simp: process_image_try_def bind_def)
          with r w2 have rw: "r = catch (Throw e)" "w' = w1" by auto
          show ?thesis
            apply (intro exI[of _ sp])
            using spd rw nls catch_throw[of e] by (auto simp: handler_post_def)
        next
          case (Return r0)
          with t p have "o1 = Return r0" "w2 = w1" by (auto simp: process_image_try_def bind_def)
          with r w2 have rw: "r = r0" "w' = w1" by (auto simp: catch_def)
          show ?thesis
            apply (intro exI[of _ sp])
            using spd rw nls Return by (auto simp: handler_post_def res0_def)
        next
          case (Value n)
          obtain out2 w3 where l: "gen_loop E m c 0 n [] w1 = (out2, w3)" by fastforce
          with t p Value have o1: "o1 = (case out2 of Throw e \<Rightarrow> Throw e | Return r \<Rightarrow> Return r
                | Value g \<Rightarrow> Return (res0\<lparr>glue_msg_process_image_res.success := True, result := g\<rparr>))"
            and "w2 = w3"
            by (auto simp: process_image_try_def bind_def return_res_def split: outcome.splits)
          with w2 have w3: "w3 = w'" by simp
          from gen_loop_spec[OF l] obtain lp where lp: "trace w3 = lp @ trace w1"
            and fr: "g_mtmd_ctx w3 = g_mtmd_ctx w1" "mtmd_live w3 = mtmd_live w1"
               "model (app w3) = model (app w1)" "app_t.ctx (app w3) = app_t.ctx (app w1)"
            and le: "\<forall>ev\<in>set lp. loop_event ev"
            and cnt: "length (filter is_sample lp) \<le> max_tokens - 0"
            and last: "lp \<noteq> [] \<longrightarrow> is_sample (last lp)"
            and ne: "lp = [] \<longrightarrow> max_tokens \<le> 0"
            and eos: "\<forall>c' t. Call_llama_token_to_piece c' t \<in> set lp \<longrightarrow> t \<noteq> llama_token_eos E m"
            and ex: "loop_exit E m 0 [] (trace w1) lp out2"
            by auto
          from ne have lpne: "lp \<noteq> []" by (auto simp: max_tokens_def)
          with last have lastS: "is_sample (last lp)" by simp
          note lps = loop_prefix[OF le]
          have tr: "trace w' = (lp @ sp) @ trace w" using lp spd w3 by simp
          have base: "lp @ trace w1 = (lp @ sp) @ trace w" using spd by simp
          have tw1: "trace w1 = sp @ trace w" using spd by simp
          have pc: "pieces E (trace w) (lp @ sp) = pieces E (trace w1) lp"
            using spd nls(3)[of E "trace w"] by (simp add: pieces_append)
          have hd: "hd (lp @ sp) = hd lp" using lpne by simp
          have tl: "tl (lp @ sp) = tl lp @ sp" using lpne by simp
          have fs: "filter is_sample (lp @ sp) = filter is_sample lp" using nls(1) by simp
          have one: "filter is_piece (lp @ sp) = []" if "filter is_sample (tl (lp @ sp)) = []"
          proof -
            from that have "filter is_sample (tl lp) = []" by (simp add: tl)
            from only_sample[OF lpne lastS this] lpne lastS
            obtain x where "lp = [x]" "is_sample x" by (cases lp) auto
            then show ?thesis using nls(2) by (cases x) auto
          qed
          have hp: "handler_post E w (lp @ sp) r"
          proof (cases out2)
            case (Throw e)
            with o1 r have r: "r = catch (Throw e)" by simp
            from Throw ex have "(is_sample (hd lp) \<longrightarrow> wcommon_sampler_sample E (lp @ trace w1) = Inl e)
              \<and> (is_decode (hd lp) \<longrightarrow> llama_decode E (lp @ trace w1) = Inl e)"
              by (simp add: loop_exit_def)
            then show ?thesis
              unfolding handler_post_def hd base
              using catch_throw[of e] r lpne one tw1 by auto
          next
            case (Return r0)
            with o1 r have r: "r = r0" by (simp add: catch_def)
            from Return ex have "r0 = res0\<lparr>glue_msg_process_image_res.error := ''Failed to decode token''\<rparr>"
              "is_decode (hd lp)" "\<exists>rc. llama_decode E (lp @ trace w1) = Inr rc \<and> rc \<noteq> 0"
              by (simp_all add: loop_exit_def)
            then show ?thesis
              unfolding handler_post_def hd base
              using r lpne one tw1 by (cases "hd lp") (auto simp: res0_def)
          next
            case (Value g)
            with o1 r have r: "r = res0\<lparr>glue_msg_process_image_res.success := True, result := g\<rparr>"
              by (simp add: catch_def)
            from Value ex lpne have g: "g = pieces E (trace w1) lp"
              and how: "(is_sample (hd lp) \<and> wcommon_sampler_sample E (lp @ trace w1) = Inr (llama_token_eos E m)) \<or>
                 (is_decode (hd lp) \<and> llama_decode E (lp @ trace w1) = Inr 0
                   \<and> length (filter is_sample lp) = max_tokens)"
              by (simp_all add: loop_exit_def)
            show ?thesis
              unfolding handler_post_def hd base pc fs
              using r g how lpne one tw1 by (cases "hd lp") (auto simp: res0_def)
          qed
          have "?P (lp @ sp)"
            unfolding lps
            using tr fr spd w3 cnt fs Value eos mc nls(5) hp r o1
            by (auto simp: res0_def catch_def split: outcome.splits)
          then show ?thesis ..
        qed
      qed
    qed
  qed
qed
lemma process_image_frame:
  "action_process_image E req w = (r, w') \<Longrightarrow>
     g_mtmd_ctx w' = g_mtmd_ctx w \<and> mtmd_live w' = mtmd_live w"
  using action_process_image_spec by blast

lemma init_outcome_success:
  "action_init_mtmd E req w = (Inr r, w') \<Longrightarrow> glue_msg_init_mtmd_res.success r \<Longrightarrow>
     r = \<lparr>glue_msg_init_mtmd_res.success = True, error = []\<rparr>"
  by (auto simp: action_init_mtmd_def Let_def split: option.splits sum.splits exn.splits)

lemma never_initialized_fresh: "never_initialized E w \<Longrightarrow> g_mtmd_ctx w = fresh_wrapper"
proof (induction rule: never_initialized.induct)
  case (start w)
  then show ?case .
next
  case (failed_init w req out w')
  then show ?case
    by (auto simp: action_init_mtmd_def fresh_wrapper_def Let_def
          split: option.splits sum.splits exn.splits)
next
  case (processed w preq r w')
  then show ?case using process_image_frame by metis
qed

lemma new_events_eq: "trace w' = new @ trace w \<Longrightarrow> new_events w w' = new"
  by (simp add: new_events_def)

lemma pieces_no_piece: "filter is_piece xs = [] \<Longrightarrow> pieces E b xs = []"
  by (induction xs) (auto split: event.splits if_splits)

lemma action_process_image_new:
  assumes run: "action_process_image E req w = (r, w')"
  defines "new \<equiv> new_events w w'"
  shows "trace w' = new @ trace w"
    and "length (filter is_sample new) \<le> max_tokens"
    and "eval_positions new = [] \<or> eval_positions new = [0]"
    and "tokenized_texts new = [] \<or> tokenized_texts new = [format_prompt (prompt req)]"
    and "use_cache req \<longrightarrow> filter is_kv_clear new = []"
    and "\<not> use_cache req \<longrightarrow> cleared_before_eval new"
    and "glue_msg_process_image_res.success r \<longrightarrow>
           eval_positions new = [0] \<and> tokenized_texts new = [format_prompt (prompt req)]"
    and "\<forall>c' t m. Call_llama_token_to_piece c' t \<in> set new \<longrightarrow> model (app w) = Some m
           \<longrightarrow> t \<noteq> llama_token_eos E m"
    and "handler_post E w new r"
proof -
  from action_process_image_spec[OF run] obtain n where n: "trace w' = n @ trace w"
    and rest: "length (filter is_sample n) \<le> max_tokens"
     "eval_positions n = [] \<or> eval_positions n = [0]"
     "tokenized_texts n = [] \<or> tokenized_texts n = [format_prompt (prompt req)]"
     "use_cache req \<longrightarrow> filter is_kv_clear n = []"
     "\<not> use_cache req \<longrightarrow> cleared_before_eval n"
     "glue_msg_process_image_res.success r \<longrightarrow>
           eval_positions n = [0] \<and> tokenized_texts n = [format_prompt (prompt req)]"
     "\<forall>c' t m. Call_llama_token_to_piece c' t \<in> set n \<longrightarrow> model (app w) = Some m
           \<longrightarrow> t \<noteq> llama_token_eos E m"
     "handler_post E w n r"
    by blast
  have "new = n" unfolding new_def by (rule new_events_eq[OF n])
  with n rest show "trace w' = new @ trace w"
    and "length (filter is_sample new) \<le> max_tokens"
    and "eval_positions new = [] \<or> eval_positions new = [0]"
    and "tokenized_texts new = [] \<or> tokenized_texts new = [format_prompt (prompt req)]"
    and "use_cache req \<longrightarrow> filter is_kv_clear new = []"
    and "\<not> use_cache req \<longrightarrow> cleared_before_eval new"
    and "glue_msg_process_image_res.success r \<longrightarrow>
           eval_positions new = [0] \<and> tokenized_texts new = [format_prompt (prompt req)]"
    and "\<forall>c' t m. Call_llama_token_to_piece c' t \<in> set new \<longrightarrow> model (app w) = Some m
           \<longrightarrow> t \<noteq> llama_token_eos E m"
    and "handler_post E w new r"
    by simp_all
qed

subsection \<open>Initialization\<close>

lemma init_step:
  assumes m: "model (app w) = Some m" and run: "action_init_mtmd E req w = (out, w')"
  shows "app w' = app w"
    and "dom (mtmd_live w) = set_option (mtmd_context_wrapper.ctx (g_mtmd_ctx w)) \<Longrightarrow>
         dom (mtmd_live w') = set_option (mtmd_context_wrapper.ctx (g_mtmd_ctx w'))"
    and "(\<exists>q. mtmd_init_from_file E (trace w') = Inr (Some q)) \<longleftrightarrow>
         out = Inr \<lparr>glue_msg_init_mtmd_res.success = True, error = []\<rparr>"
    and "(\<exists>q. mtmd_init_from_file E (trace w') = Inr (Some q)) \<longleftrightarrow>
         mtmd_context_wrapper.ctx (g_mtmd_ctx w') \<noteq> None"
    and "out = Inr \<lparr>glue_msg_init_mtmd_res.success = True, error = []\<rparr> \<longrightarrow> initialized (g_mtmd_ctx w')"
    and "mtmd_context_wrapper.ctx (g_mtmd_ctx w) = Some p \<Longrightarrow>
         trace w' = [Call_mtmd_init_from_file (mmproj_path req) m (make_params E req),
                     Call_mtmd_free p] @ trace w"
    and "mtmd_context_wrapper.ctx (g_mtmd_ctx w) = None \<Longrightarrow>
         trace w' = [Call_mtmd_init_from_file (mmproj_path req) m (make_params E req)] @ trace w"
  using m run
  by (auto simp: action_init_mtmd_def mtmd_free_def Let_def
        split: option.splits sum.splits exn.splits if_splits)

subsection \<open>The prompt and the bitmap\<close>

lemma str_find_sublist: "str_find s m = None \<longleftrightarrow> \<not> sublist m s"
  by (induction s) (auto simp: sublist_Cons_right)

lemma format_prompt_sublist:
  "format_prompt p = (if sublist ''<__image__>'' p then p else p @ '' <__image__>'')"
  by (simp add: format_prompt_def Let_def str_find_sublist)

text \<open>Where the 32-bit product does not wrap around, it is the mathematical product,
  and the bitmap is built exactly when the buffer is long enough, provided the vector
  can be resized.\<close>

lemma unat_product_in_range:
  fixes w h :: "32 word"
  assumes "0 <s w" "0 <s h" "sint w * sint h * 3 < 2 ^ 31"
  shows "unat (w * h * 3) = nat (sint w * sint h * 3)"
proof -
  from assms(1,2) have pos: "0 < sint w" "0 < sint h" by (simp_all add: word_sless_alt)
  have "sint w < 2 ^ 31" "sint h < 2 ^ 31" using sint_lt[of w] sint_lt[of h] by simp_all
  with pos have u: "uint w = sint w" "uint h = sint h"
    by (simp_all add: uint_sint take_bit_int_eq_self)
  have nn: "0 \<le> sint w * sint h * 3" using pos by simp
  have "uint (w * h * 3) = (uint w * uint h * 3) mod 2 ^ 32"
    by (simp add: uint_word_ariths mod_mult_left_eq)
  also have "\<dots> = sint w * sint h * 3"
    using nn assms(3) by (simp add: u)
  finally show ?thesis by (simp add: unat_eq_nat_uint)
qed

lemma make_bitmap_in_range:
  assumes "0 <s width req" and "0 <s height req"
    and "sint (width req) * sint (height req) * 3 < 2 ^ 31"
    and "vector_resize E (nat (sint (width req) * sint (height req) * 3)) = None"
  shows "make_bitmap E req w =
     (if nat (sint (width req) * sint (height req) * 3) \<le> length (image_data req)
      then (Value \<lparr>nx = width req, ny = height req,
                   data = take (nat (sint (width req) * sint (height req) * 3)) (image_data req),
                   id = ''img_'' @ to_string (std_hash E (image_data req))\<rparr>, w)
      else (Return (res0\<lparr>glue_msg_process_image_res.error :=
                 ''Image data size does not match dimensions''\<rparr>), w))"
  using assms(4)
  by (simp add: make_bitmap_def Let_def val_def return_res_def
        unat_product_in_range[OF assms(1-3)])

subsection \<open>Concrete runs\<close>

lemmas run_defs = action_process_image_def process_image_try_def prepare_generation_def
  eval_and_sampler_def make_bitmap_def format_prompt_def bind_def call_def val_def return_res_def
  catch_def res0_def Let_def gen_loop.simps max_tokens_def llama_batch_add_def llama_batch_clear_def
  stub_engine_def calls_in_request_def word_sle_eq word_sless_alt
  make_params_def init_req_def image_req_def to_string.simps

lemma ready_world_eq: "ready_world =
     \<lparr>app = \<lparr>model = Some 11, app_t.ctx = Some 12, ctx_sampling = None, batch = []\<rparr>,
      g_mtmd_ctx = \<lparr>mtmd_context_wrapper.ctx = Some 100, initialized = True\<rparr>,
      mtmd_live = [100 \<mapsto> \<lparr>mtmd_context_params.use_gpu = False, print_timings = True,
          n_threads = 1, verbosity = GGML_LOG_LEVEL_INFO, image_marker = ''<__image__>''\<rparr>],
      trace = [Call_mtmd_init_from_file ''mmproj.gguf'' 11
         \<lparr>mtmd_context_params.use_gpu = False, print_timings = True,
          n_threads = 1, verbosity = GGML_LOG_LEVEL_INFO, image_marker = ''<__image__>''\<rparr>]\<rparr>"
  by (simp add: ready_world_def action_init_mtmd_def loaded_world_def
       two_token_engine_def run_defs)

lemma first_run_result:
  "fst (action_process_image two_token_engine image_req ready_world) =
     \<lparr>glue_msg_process_image_res.success = True, error = [], result = ''t10 t11 ''\<rparr>"
  by (simp add: ready_world_eq two_token_engine_def run_defs)

lemma after_first_world_eq: "after_first_world =
  \<lparr>app = \<lparr>model = Some 11, app_t.ctx = Some 12, ctx_sampling = Some 17,
      batch = [\<lparr>token = 11, pos = 6, seq_ids = [0], logits = True\<rparr>]\<rparr>,
   g_mtmd_ctx = \<lparr>mtmd_context_wrapper.ctx = Some 100, initialized = True\<rparr>,
   mtmd_live = [100 \<mapsto> \<lparr>mtmd_context_params.use_gpu = False, print_timings = True,
          n_threads = 1, verbosity = GGML_LOG_LEVEL_INFO, image_marker = ''<__image__>''\<rparr>],
   trace = [Call_wcommon_sampler_sample (Some 17) 12 7,
  Call_llama_decode 12 [\<lparr>token = 11, pos = 6, seq_ids = [0], logits = True\<rparr>],
  Call_wcommon_sampler_accept (Some 17) 11, Call_llama_token_to_piece 12 11,
  Call_wcommon_sampler_sample (Some 17) 12 6,
  Call_llama_decode 12 [\<lparr>token = 10, pos = 5, seq_ids = [0], logits = True\<rparr>],
  Call_wcommon_sampler_accept (Some 17) 10, Call_llama_token_to_piece 12 10,
  Call_wcommon_sampler_sample (Some 17) 12 5,
  Call_wcommon_sampler_init 11 \<lparr>temp = 11744051 / 16777216, top_k = 40, top_p = 7549747 / 8388608, n_prev = 64\<rparr>,
  Call_mtmd_helper_eval 100 12 [TextChunk [1, 15], ImageChunk 3] 0 0 512,
  Call_llama_kv_cache_clear 12,
  Call_mtmd_tokenize 100
   \<lparr>text' = ''describe this <__image__>'', add_special = True, parse_special = True\<rparr>
   [\<lparr>nx = 2, ny = 1, data = [1, 2, 3, 4, 5, 6], id = ''img_6''\<rparr>],
  Call_mtmd_init_from_file ''mmproj.gguf'' 11
         \<lparr>mtmd_context_params.use_gpu = False, print_timings = True,
          n_threads = 1, verbosity = GGML_LOG_LEVEL_INFO, image_marker = ''<__image__>''\<rparr>]\<rparr>"
  by (simp add: after_first_world_def ready_world_eq two_token_engine_def run_defs)

lemma first_run_events: "new_events ready_world after_first_world =
  [Call_wcommon_sampler_sample (Some 17) 12 7,
  Call_llama_decode 12 [\<lparr>token = 11, pos = 6, seq_ids = [0], logits = True\<rparr>],
  Call_wcommon_sampler_accept (Some 17) 11, Call_llama_token_to_piece 12 11,
  Call_wcommon_sampler_sample (Some 17) 12 6,
  Call_llama_decode 12 [\<lparr>token = 10, pos = 5, seq_ids = [0], logits = True\<rparr>],
  Call_wcommon_sampler_accept (Some 17) 10, Call_llama_token_to_piece 12 10,
  Call_wcommon_sampler_sample (Some 17) 12 5,
  Call_wcommon_sampler_init 11 \<lparr>temp = 11744051 / 16777216, top_k = 40, top_p = 7549747 / 8388608, n_prev = 64\<rparr>,
  Call_mtmd_helper_eval 100 12 [TextChunk [1, 15], ImageChunk 3] 0 0 512,
  Call_llama_kv_cache_clear 12,
  Call_mtmd_tokenize 100
   \<lparr>text' = ''describe this <__image__>'', add_special = True, parse_special = True\<rparr>
   [\<lparr>nx = 2, ny = 1, data = [1, 2, 3, 4, 5, 6], id = ''img_6''\<rparr>]]"
  by (simp add: new_events_def after_first_world_eq ready_world_eq)

lemma second_run_result:
  "fst (action_process_image two_token_engine cached_req after_first_world) =
     \<lparr>glue_msg_process_image_res.success = True, error = [], result = ''t10 t11 ''\<rparr>"
  by (simp add: after_first_world_eq two_token_engine_def cached_req_def run_defs)

lemma second_run_events: "new_events after_first_world after_second_world =
  [Call_wcommon_sampler_sample (Some 17) 12 7,
  Call_llama_decode 12 [\<lparr>token = 11, pos = 6, seq_ids = [0], logits = True\<rparr>],
  Call_wcommon_sampler_accept (Some 17) 11, Call_llama_token_to_piece 12 11,
  Call_wcommon_sampler_sample (Some 17) 12 6,
  Call_llama_decode 12 [\<lparr>token = 10, pos = 5, seq_ids = [0], logits = True\<rparr>],
  Call_wcommon_sampler_accept (Some 17) 10, Call_llama_token_to_piece 12 10,
  Call_wcommon_sampler_sample (Some 17) 12 5,
  Call_wcommon_sampler_init 11 \<lparr>temp = 11744051 / 16777216, top_k = 40, top_p = 7549747 / 8388608, n_prev = 64\<rparr>,
  Call_wcommon_sampler_free 17,
  Call_mtmd_helper_eval 100 12 [TextChunk [1, 15], ImageChunk 3] 0 0 512,
  Call_mtmd_tokenize 100
   \<lparr>text' = ''describe this <__image__>'', add_special = True, parse_special = True\<rparr>
   [\<lparr>nx = 2, ny = 1, data = [1, 2, 3, 4, 5, 6], id = ''img_6''\<rparr>]]"
  by (simp add: new_events_def after_second_world_def after_first_world_eq two_token_engine_def
        cached_req_def run_defs)

lemma failed_init_world_eval:
  "action_init_mtmd two_token_engine missing_req loaded_world =
     (Inr \<lparr>glue_msg_init_mtmd_res.success = False, error = ''Failed to initialize multimodal context''\<rparr>,
      failed_init_world)"
  by (simp add: failed_init_world_def action_init_mtmd_def loaded_world_def missing_req_def
        init_req_def two_token_engine_def stub_engine_def make_params_def Let_def)

lemma failed_init_world_app:
  "app failed_init_world = app loaded_world"
  by (simp add: failed_init_world_def action_init_mtmd_def loaded_world_def missing_req_def
        init_req_def two_token_engine_def stub_engine_def make_params_def Let_def)

lemma failed_decode_result:
  "fst (action_process_image failing_engine image_req ready_world) =
     \<lparr>glue_msg_process_image_res.success = False, error = ''Failed to decode token'', result = []\<rparr>"
  by (simp add: ready_world_eq failing_engine_def run_defs)

lemma failed_decode_events: "new_events ready_world failed_decode_world =
  [Call_llama_decode 12 [\<lparr>token = 12, pos = 7, seq_ids = [0], logits = True\<rparr>],
   Call_wcommon_sampler_accept (Some 17) 12, Call_llama_token_to_piece 12 12,
   Call_wcommon_sampler_sample (Some 17) 12 7,
   Call_llama_decode 12 [\<lparr>token = 11, pos = 6, seq_ids = [0], logits = True\<rparr>],
   Call_wcommon_sampler_accept (Some 17) 11, Call_llama_token_to_piece 12 11,
   Call_wcommon_sampler_sample (Some 17) 12 6,
   Call_llama_decode 12 [\<lparr>token = 10, pos = 5, seq_ids = [0], logits = True\<rparr>],
   Call_wcommon_sampler_accept (Some 17) 10, Call_llama_token_to_piece 12 10,
   Call_wcommon_sampler_sample (Some 17) 12 5,
   Call_wcommon_sampler_init 11 \<lparr>temp = 11744051 / 16777216, top_k = 40, top_p = 7549747 / 8388608, n_prev = 64\<rparr>,
   Call_mtmd_helper_eval 100 12 [TextChunk [1, 15], ImageChunk 3] 0 0 512,
   Call_llama_kv_cache_clear 12,
   Call_mtmd_tokenize 100
    \<lparr>text' = ''describe this <__image__>'', add_special = True, parse_special = True\<rparr>
    [\<lparr>nx = 2, ny = 1, data = [1, 2, 3, 4, 5, 6], id = ''img_6''\<rparr>]]"
  by (simp add: new_events_def failed_decode_world_def ready_world_eq failing_engine_def run_defs)

lemma failed_decode_trace:
  "trace failed_decode_world = new_events ready_world failed_decode_world @ trace ready_world"
  by (simp add: failed_decode_events)
     (simp add: failed_decode_world_def ready_world_eq failing_engine_def run_defs)

lemma eos_first_events: "new_events ready_world eos_first_world =
  [Call_wcommon_sampler_sample (Some 17) 12 5,
   Call_wcommon_sampler_init 11 \<lparr>temp = 11744051 / 16777216, top_k = 40, top_p = 7549747 / 8388608, n_prev = 64\<rparr>,
   Call_mtmd_helper_eval 100 12 [TextChunk [1, 15], ImageChunk 3] 0 0 512,
   Call_llama_kv_cache_clear 12,
   Call_mtmd_tokenize 100
    \<lparr>text' = ''describe this <__image__>'', add_special = True, parse_special = True\<rparr>
    [\<lparr>nx = 2, ny = 1, data = [1, 2, 3, 4, 5, 6], id = ''img_6''\<rparr>]]"
  by (simp add: new_events_def eos_first_world_def ready_world_eq eos_first_engine_def run_defs)

lemma eos_first_trace:
  "trace eos_first_world = new_events ready_world eos_first_world @ trace ready_world"
  by (simp add: eos_first_events)
     (simp add: eos_first_world_def ready_world_eq eos_first_engine_def run_defs)




lemmas init_defs = action_init_mtmd_def mtmd_free_def make_params_def Let_def init_req_def
  missing_req_def two_token_engine_def stub_engine_def

lemma first_init_eval:
  "action_init_mtmd two_token_engine init_req loaded_world =
     (Inr \<lparr>glue_msg_init_mtmd_res.success = True, error = []\<rparr>, ready_world)"
  by (simp add: ready_world_def) (simp add: loaded_world_def init_defs)

lemma twice_ready_eval:
  "fst (action_init_mtmd two_token_engine init_req ready_world) =
     Inr \<lparr>glue_msg_init_mtmd_res.success = True, error = []\<rparr>"
  "g_mtmd_ctx twice_ready_world = \<lparr>mtmd_context_wrapper.ctx = Some 102, initialized = True\<rparr>"
  "dom (mtmd_live twice_ready_world) = {102}"
  "mtmd_init_from_file two_token_engine (trace twice_ready_world) = Inr (Some 102)"
  by (simp_all add: twice_ready_world_def ready_world_eq init_defs)

lemma reinit_failed_eval:
  "fst (action_init_mtmd two_token_engine missing_req ready_world) =
     Inr \<lparr>glue_msg_init_mtmd_res.success = False,
          error = ''Failed to initialize multimodal context''\<rparr>"
  "g_mtmd_ctx reinit_failed_world = \<lparr>mtmd_context_wrapper.ctx = None, initialized = False\<rparr>"
  "dom (mtmd_live reinit_failed_world) = {}"
  "mtmd_init_from_file two_token_engine (trace reinit_failed_world) = Inr None"
  by (simp_all add: reinit_failed_world_def ready_world_eq init_defs)

lemma overflow_events: "new_events ready_world overflow_world =
  [Call_wcommon_sampler_sample (Some 17) 12 7,
  Call_llama_decode 12 [\<lparr>token = 11, pos = 6, seq_ids = [0], logits = True\<rparr>],
  Call_wcommon_sampler_accept (Some 17) 11, Call_llama_token_to_piece 12 11,
  Call_wcommon_sampler_sample (Some 17) 12 6,
  Call_llama_decode 12 [\<lparr>token = 10, pos = 5, seq_ids = [0], logits = True\<rparr>],
  Call_wcommon_sampler_accept (Some 17) 10, Call_llama_token_to_piece 12 10,
  Call_wcommon_sampler_sample (Some 17) 12 5,
  Call_wcommon_sampler_init 11 \<lparr>temp = 11744051 / 16777216, top_k = 40, top_p = 7549747 / 8388608, n_prev = 64\<rparr>,
  Call_mtmd_helper_eval 100 12 [TextChunk [1, 15], ImageChunk 3] 0 0 512,
  Call_llama_kv_cache_clear 12,
  Call_mtmd_tokenize 100
   \<lparr>text' = ''describe this <__image__>'', add_special = True, parse_special = True\<rparr>
   [\<lparr>nx = 65536, ny = 65536, data = [], id = ''img_1''\<rparr>]]"
  by (simp add: new_events_def overflow_world_def overflow_req_def ready_world_eq
        two_token_engine_def run_defs)

lemma overflow_result:
  "fst (action_process_image two_token_engine overflow_req ready_world) =
     \<lparr>glue_msg_process_image_res.success = True, error = [], result = ''t10 t11 ''\<rparr>"
  by (simp add: overflow_req_def ready_world_eq two_token_engine_def run_defs)

lemma custom_marker_world_eq: "custom_marker_world =
     \<lparr>app = \<lparr>model = Some 11, app_t.ctx = Some 12, ctx_sampling = None, batch = []\<rparr>,
      g_mtmd_ctx = \<lparr>mtmd_context_wrapper.ctx = Some 100, initialized = True\<rparr>,
      mtmd_live = [100 \<mapsto> \<lparr>mtmd_context_params.use_gpu = False, print_timings = True,
          n_threads = 1, verbosity = GGML_LOG_LEVEL_INFO, image_marker = ''<img>''\<rparr>],
      trace = [Call_mtmd_init_from_file ''mmproj.gguf'' 11
         \<lparr>mtmd_context_params.use_gpu = False, print_timings = True,
          n_threads = 1, verbosity = GGML_LOG_LEVEL_INFO, image_marker = ''<img>''\<rparr>]\<rparr>"
  by (simp add: custom_marker_world_def custom_marker_req_def loaded_world_def init_defs)

lemma custom_unmarked_eval:
  "fst (action_process_image two_token_engine image_req custom_marker_world) =
     \<lparr>glue_msg_process_image_res.success = False,
      error = ''Failed to tokenize input with image'', result = []\<rparr>"
  "tokenized_texts (new_events custom_marker_world custom_unmarked_world) =
     [''describe this <__image__>'']"
  by (simp_all add: new_events_def custom_unmarked_world_def custom_marker_world_eq
        two_token_engine_def run_defs)

lemma custom_marked_eval:
  "tokenized_texts (new_events custom_marker_world custom_marked_world) =
     [''describe <img> <__image__>'']"
  by (simp add: new_events_def custom_marked_world_def marked_req_def custom_marker_world_eq
        two_token_engine_def run_defs)

subsection \<open>Re-initialization when the engine builds no context\<close>

text \<open>
  When \<^verbatim>\<open>initMultimodal\<close> is called while a context is held and the engine then builds
  no new context, the old context has been freed before the engine was asked and the
  manager is left uninitialized. The handler returns \<^verbatim>\<open>success = false\<close> when the
  engine returned null or threw a \<^verbatim>\<open>std::exception\<close>; anything else that is thrown
  leaves the handler, which has no clause for it.
\<close>

lemma reinit_frees_before_build:
  assumes "model (app w) = Some m" and "mtmd_context_wrapper.ctx (g_mtmd_ctx w) = Some p"
    and "mtmd_init_from_file E
           (Call_mtmd_init_from_file (mmproj_path req) m (make_params E req)
              # Call_mtmd_free p # trace w) = a"
    and "\<forall>q. a \<noteq> Inr (Some q)"
  shows "\<exists>out w'. action_init_mtmd E req w = (out, w')
     \<and> mtmd_context_wrapper.ctx (g_mtmd_ctx w') = None \<and> \<not> initialized (g_mtmd_ctx w')
     \<and> mtmd_live w' p = None
     \<and> trace w' = [Call_mtmd_init_from_file (mmproj_path req) m (make_params E req),
                     Call_mtmd_free p] @ trace w
     \<and> (case a of
          Inl OtherException \<Rightarrow> out = Inl OtherException
        | _ \<Rightarrow> (\<exists>r. out = Inr r \<and> \<not> glue_msg_init_mtmd_res.success r))"
  using assms
  by (cases a rule: sum.exhaust)
     (auto simp: action_init_mtmd_def mtmd_free_def Let_def split: exn.splits option.splits)

lemma reinit_frees_before_build_example:
  "model (app ready_world) = Some 11
   \<and> mtmd_context_wrapper.ctx (g_mtmd_ctx ready_world) = Some 100
   \<and> initialized (g_mtmd_ctx ready_world)
   \<and> mtmd_live ready_world 100 \<noteq> None
   \<and> mtmd_init_from_file two_token_engine
        (Call_mtmd_init_from_file (mmproj_path missing_req) 11
           (make_params two_token_engine missing_req) # Call_mtmd_free 100 # trace ready_world)
       = Inr None
   \<and> fst (action_init_mtmd two_token_engine missing_req ready_world) =
       Inr \<lparr>glue_msg_init_mtmd_res.success = False,
            error = ''Failed to initialize multimodal context''\<rparr>
   \<and> mtmd_context_wrapper.ctx (g_mtmd_ctx reinit_failed_world) = None
   \<and> \<not> initialized (g_mtmd_ctx reinit_failed_world)
   \<and> mtmd_live reinit_failed_world 100 = None
   \<and> hd (tl (trace reinit_failed_world)) = Call_mtmd_free 100"
proof -
  have m: "model (app ready_world) = Some 11"
    and c: "mtmd_context_wrapper.ctx (g_mtmd_ctx ready_world) = Some 100"
    and i: "initialized (g_mtmd_ctx ready_world)" "mtmd_live ready_world 100 \<noteq> None"
    by (simp_all add: ready_world_eq)
  have a: "mtmd_init_from_file two_token_engine
        (Call_mtmd_init_from_file (mmproj_path missing_req) 11
           (make_params two_token_engine missing_req) # Call_mtmd_free 100 # trace ready_world)
       = Inr None"
    by (simp add: two_token_engine_def stub_engine_def missing_req_def init_req_def)
  have nq: "\<forall>q. (Inr None :: exn + addr option) \<noteq> Inr (Some q)" by simp
  from reinit_frees_before_build[OF m c a nq]
  obtain out w' where r: "action_init_mtmd two_token_engine missing_req ready_world = (out, w')"
    and s: "mtmd_context_wrapper.ctx (g_mtmd_ctx w') = None" "\<not> initialized (g_mtmd_ctx w')"
      "mtmd_live w' 100 = None"
      "trace w' = [Call_mtmd_init_from_file (mmproj_path missing_req) 11
          (make_params two_token_engine missing_req), Call_mtmd_free 100] @ trace ready_world"
    by auto
  from r have w': "reinit_failed_world = w'" by (simp add: reinit_failed_world_def)
  from m c i a s show ?thesis by (simp add: w' reinit_failed_eval(1))
qed

section \<open>The claims\<close>

text \<open>
  C1. A \<^verbatim>\<open>processImage\<close> request issued while the text model and the inference
  context are present but the multimodal context is not initialized (no
  \<^verbatim>\<open>initMultimodal\<close> has succeeded, or the flag is unset, or the pointer is null) is
  answered with \<^verbatim>\<open>success = false\<close> and the not-initialized error, whatever the image
  bytes, dimensions, prompt and cache flag are; the state is left as it was.
\<close>

theorem process_image_before_init:
  assumes "model (app w) \<noteq> None" and "app_t.ctx (app w) \<noteq> None"
    and "never_initialized E w \<or> \<not> initialized (g_mtmd_ctx w)
         \<or> mtmd_context_wrapper.ctx (g_mtmd_ctx w) = None"
  shows "action_process_image E req w =
           (\<lparr>glue_msg_process_image_res.success = False,
             error = ''Multimodal context not initialized. Call initMultimodal() first.'',
             result = []\<rparr>, w)"
proof -
  from assms(3) have "\<not> initialized (g_mtmd_ctx w) \<or> mtmd_context_wrapper.ctx (g_mtmd_ctx w) = None"
    using never_initialized_fresh[of E w] by (auto simp: fresh_wrapper_def)
  with assms(1,2) show ?thesis
    by (auto simp: action_process_image_def res0_def)
qed

theorem process_image_before_init_witness:
  "never_initialized two_token_engine failed_init_world
   \<and> model (app failed_init_world) \<noteq> None \<and> app_t.ctx (app failed_init_world) \<noteq> None
   \<and> action_process_image two_token_engine image_req failed_init_world =
           (\<lparr>glue_msg_process_image_res.success = False,
             error = ''Multimodal context not initialized. Call initMultimodal() first.'',
             result = []\<rparr>, failed_init_world)"
proof -
  have s: "never_initialized two_token_engine loaded_world"
    by (rule never_initialized.start) (simp add: loaded_world_def fresh_wrapper_def)
  have n: "never_initialized two_token_engine failed_init_world"
    by (rule never_initialized.failed_init[OF s failed_init_world_eval]) simp
  have a: "model (app failed_init_world) \<noteq> None" "app_t.ctx (app failed_init_world) \<noteq> None"
    by (simp_all add: failed_init_world_app loaded_world_def)
  from process_image_before_init[OF a, of two_token_engine image_req] n a show ?thesis by simp
qed

text \<open>
  C2, as amended. When the cache-reuse flag is false the attention cache is cleared
  directly before chunk evaluation; when the flag is true the cache is not cleared. In
  both cases chunk evaluation starts at position 0: \<^verbatim>\<open>n_past\<close> is a local variable of
  the handler, initialized to 0 in every request, so no cursor value survives from the
  previous request.
\<close>

theorem cache_flag_and_cursor:
  assumes "action_process_image E req w = (r, w')"
  shows "(eval_positions (new_events w w') = [] \<or> eval_positions (new_events w w') = [0])
     \<and> (glue_msg_process_image_res.success r \<longrightarrow> eval_positions (new_events w w') = [0])
     \<and> (use_cache req \<longrightarrow> filter is_kv_clear (new_events w w') = [])
     \<and> (\<not> use_cache req \<longrightarrow> cleared_before_eval (new_events w w'))"
  using action_process_image_new[OF assms] by simp

theorem cache_flag_and_cursor_witness:
  "\<not> use_cache image_req
   \<and> cleared_before_eval (new_events ready_world after_first_world)
   \<and> eval_positions (new_events ready_world after_first_world) = [0]
   \<and> use_cache cached_req
   \<and> filter is_kv_clear (new_events after_first_world after_second_world) = []
   \<and> eval_positions (new_events after_first_world after_second_world) = [0]"
proof -
  have run1: "action_process_image two_token_engine image_req ready_world =
      (fst (action_process_image two_token_engine image_req ready_world), after_first_world)"
    by (simp add: after_first_world_def)
  have run2: "action_process_image two_token_engine cached_req after_first_world =
      (fst (action_process_image two_token_engine cached_req after_first_world), after_second_world)"
    by (simp add: after_second_world_def)
  have f: "\<not> use_cache image_req" "use_cache cached_req"
    by (simp_all add: image_req_def cached_req_def)
  from cache_flag_and_cursor[OF run1] cache_flag_and_cursor[OF run2] f
  show ?thesis by (simp add: first_run_result second_run_result)
qed

text \<open>
  The claim as stated fails: the first request decodes tokens at positions 5 and 6 and
  makes its last sampling call with the cursor at 7; the second request, with the
  cache-reuse flag set, starts chunk evaluation at 0, not at 7.
\<close>

theorem cursor_not_continued_counterexample:
  "use_cache cached_req
   \<and> decode_positions (new_events ready_world after_first_world) = [6, 5]
   \<and> hd (new_events ready_world after_first_world) = Call_wcommon_sampler_sample (Some 17) 12 7
   \<and> eval_positions (new_events after_first_world after_second_world) = [0]
   \<and> eval_positions (new_events after_first_world after_second_world) \<noteq> [7]"
  by (simp add: first_run_events second_run_events cached_req_def image_req_def)

text \<open>
  C3 at an input where the code departs from it. The request declares a 65536 by 65536
  image and supplies one byte. The product \<^verbatim>\<open>req.width * req.height * 3\<close> is computed
  in 32 bits and wraps around to 0, so the vector is resized to 0 bytes, the comparison
  \<^verbatim>\<open>size() >= 0\<close> holds, nothing is copied, and the handler goes on to tokenize an
  empty bitmap of 65536 by 65536 pixels instead of reporting the size mismatch.
\<close>

theorem overflowing_dimensions_accepted:
  "image_data overflow_req \<noteq> [] \<and> 0 <s width overflow_req \<and> 0 <s height overflow_req
   \<and> int (length (image_data overflow_req))
        < sint (width overflow_req) * sint (height overflow_req) * 3
   \<and> width overflow_req * height overflow_req * 3 = 0
   \<and> last (new_events ready_world overflow_world) =
       Call_mtmd_tokenize 100
         \<lparr>text' = ''describe this <__image__>'', add_special = True, parse_special = True\<rparr>
         [\<lparr>nx = 65536, ny = 65536, data = [], id = ''img_1''\<rparr>]
   \<and> fst (action_process_image two_token_engine overflow_req ready_world) =
       \<lparr>glue_msg_process_image_res.success = True, error = [], result = ''t10 t11 ''\<rparr>"
  by (simp add: overflow_events overflow_result)
     (simp add: overflow_req_def word_sless_alt)

theorem overflowing_dimensions_accepted_witness:
  "glue_msg_process_image_res.error (fst (action_process_image two_token_engine overflow_req ready_world))
     \<noteq> ''Image data size does not match dimensions''"
  using overflowing_dimensions_accepted by simp

text \<open>
  C4. When the last call of a \<^verbatim>\<open>processImage\<close> request is a \<^verbatim>\<open>llama_decode\<close> that
  the engine answers with a non-zero status (the decode step of some iteration fails),
  the response is \<^verbatim>\<open>success = false\<close> with the decode error and an empty text: the
  pieces accumulated in this and the earlier iterations are not returned.
\<close>

theorem decode_failure_discards_text:
  assumes "action_process_image E req w = (r, w')"
    and "new_events w w' = Call_llama_decode c b # evs"
    and "llama_decode E (trace w') = Inr rc" and "rc \<noteq> 0"
  shows "r = \<lparr>glue_msg_process_image_res.success = False, error = ''Failed to decode token'',
              result = []\<rparr>"
proof -
  note f = action_process_image_new[OF assms(1)]
  from f(9) assms(2-4) f(1) show ?thesis
    by (simp add: handler_post_def res0_def)
qed

theorem decode_failure_discards_text_witness:
  "hd (new_events ready_world failed_decode_world) =
      Call_llama_decode 12 [\<lparr>token = 12, pos = 7, seq_ids = [0], logits = True\<rparr>]
   \<and> llama_decode failing_engine (trace failed_decode_world) = Inr 1
   \<and> pieces failing_engine (trace ready_world) (new_events ready_world failed_decode_world)
       = ''t10 t11 t12 ''
   \<and> fst (action_process_image failing_engine image_req ready_world) =
       \<lparr>glue_msg_process_image_res.success = False, error = ''Failed to decode token'',
        result = []\<rparr>"
proof -
  have run: "action_process_image failing_engine image_req ready_world =
      (fst (action_process_image failing_engine image_req ready_world), failed_decode_world)"
    by (simp add: failed_decode_world_def)
  have ans: "llama_decode failing_engine (trace failed_decode_world) = Inr 1"
    by (simp add: failed_decode_trace failed_decode_events)
       (simp add: failing_engine_def stub_engine_def calls_in_request_def)
  have pcs: "pieces failing_engine (trace ready_world) (new_events ready_world failed_decode_world)
       = ''t10 t11 t12 ''"
    by (simp add: failed_decode_events)
       (simp add: failing_engine_def stub_engine_def to_string.simps)
  from decode_failure_discards_text[OF run failed_decode_events ans] ans pcs
  show ?thesis by (simp add: failed_decode_events)
qed



text \<open>
  C6 at inputs where the code departs from it. The multimodal context was created with
  the marker \<open>''<img>''\<close>. The handler looks for the fixed text \<open>''<__image__>''\<close>
  and not for the configured marker: a prompt without any marker is given to the
  tokenizer with \<open>''<__image__>''\<close> appended, so it still lacks the configured marker
  (and the scripted tokenizer refuses it); a prompt that contains the configured marker
  is not left unchanged.
\<close>

theorem configured_marker_ignored:
  "mtmd_context_wrapper.ctx (g_mtmd_ctx custom_marker_world) = Some 100
   \<and> map_option mtmd_context_params.image_marker (mtmd_live custom_marker_world 100) = Some ''<img>''
   \<and> str_find (prompt image_req) ''<img>'' = None
   \<and> tokenized_texts (new_events custom_marker_world custom_unmarked_world) =
       [''describe this <__image__>'']
   \<and> str_find ''describe this <__image__>'' ''<img>'' = None
   \<and> fst (action_process_image two_token_engine image_req custom_marker_world) =
       \<lparr>glue_msg_process_image_res.success = False,
        error = ''Failed to tokenize input with image'', result = []\<rparr>
   \<and> str_find (prompt marked_req) ''<img>'' = Some 9
   \<and> tokenized_texts (new_events custom_marker_world custom_marked_world) =
       [''describe <img> <__image__>'']"
  by (simp add: custom_unmarked_eval custom_marked_eval)
     (simp add: custom_marker_world_eq image_req_def marked_req_def)

theorem configured_marker_ignored_witness:
  "tokenized_texts (new_events custom_marker_world custom_unmarked_world) \<noteq>
     [prompt image_req @ '' <img>'']"
  using configured_marker_ignored by (simp add: image_req_def)

text \<open>
  C7, as amended. After two \<^verbatim>\<open>initMultimodal\<close> calls in a row with a model loaded,
  starting from a state in which the only live multimodal context is the one
  \<^verbatim>\<open>g_mtmd_ctx\<close> holds, the only live context is again the one \<^verbatim>\<open>g_mtmd_ctx\<close>
  holds: exactly one if the engine builds a context for the second call, none if it
  does not. The second call frees the context left by the first before it asks for the
  new one, and whether it succeeds is decided by the engine's answer to that request
  alone.
\<close>

theorem two_inits_leave_at_most_one_context:
  assumes "model (app w) = Some m"
    and "dom (mtmd_live w) = set_option (mtmd_context_wrapper.ctx (g_mtmd_ctx w))"
    and "action_init_mtmd E req1 w = (out1, w1)"
    and "action_init_mtmd E req2 w1 = (out2, w2)"
  shows "dom (mtmd_live w2) = set_option (mtmd_context_wrapper.ctx (g_mtmd_ctx w2))
     \<and> ((\<exists>q. mtmd_init_from_file E (trace w2) = Inr (Some q)) \<longrightarrow>
            out2 = Inr \<lparr>glue_msg_init_mtmd_res.success = True, error = []\<rparr>
            \<and> initialized (g_mtmd_ctx w2) \<and> (\<exists>q. dom (mtmd_live w2) = {q}))
     \<and> ((\<forall>q. mtmd_init_from_file E (trace w2) \<noteq> Inr (Some q)) \<longrightarrow>
            out2 \<noteq> Inr \<lparr>glue_msg_init_mtmd_res.success = True, error = []\<rparr>
            \<and> dom (mtmd_live w2) = {})
     \<and> (\<forall>p. mtmd_context_wrapper.ctx (g_mtmd_ctx w1) = Some p \<longrightarrow>
            trace w2 = [Call_mtmd_init_from_file (mmproj_path req2) m (make_params E req2),
                        Call_mtmd_free p] @ trace w1
            \<and> (mtmd_live w2 p = None \<or> mtmd_context_wrapper.ctx (g_mtmd_ctx w2) = Some p))"
proof -
  note s1 = init_step[OF assms(1) assms(3)]
  from s1(1) assms(1) have m1: "model (app w1) = Some m" by simp
  note s2 = init_step[OF m1 assms(4)]
  have inv1: "dom (mtmd_live w1) = set_option (mtmd_context_wrapper.ctx (g_mtmd_ctx w1))"
    by (rule s1(2)[OF assms(2)])
  have inv2: "dom (mtmd_live w2) = set_option (mtmd_context_wrapper.ctx (g_mtmd_ctx w2))"
    by (rule s2(2)[OF inv1])
  have a: "out2 = Inr \<lparr>glue_msg_init_mtmd_res.success = True, error = []\<rparr>
            \<and> initialized (g_mtmd_ctx w2) \<and> (\<exists>q. dom (mtmd_live w2) = {q})"
    if "\<exists>q. mtmd_init_from_file E (trace w2) = Inr (Some q)"
    using that s2(3) s2(4) s2(5) inv2 by auto
  have b: "out2 \<noteq> Inr \<lparr>glue_msg_init_mtmd_res.success = True, error = []\<rparr>
            \<and> dom (mtmd_live w2) = {}"
    if "\<forall>q. mtmd_init_from_file E (trace w2) \<noteq> Inr (Some q)"
    using that s2(3) s2(4) inv2 by auto
  have c: "trace w2 = [Call_mtmd_init_from_file (mmproj_path req2) m (make_params E req2),
                        Call_mtmd_free p] @ trace w1
            \<and> (mtmd_live w2 p = None \<or> mtmd_context_wrapper.ctx (g_mtmd_ctx w2) = Some p)"
    if "mtmd_context_wrapper.ctx (g_mtmd_ctx w1) = Some p" for p
  proof -
    have "p \<in> dom (mtmd_live w2) \<longleftrightarrow> mtmd_context_wrapper.ctx (g_mtmd_ctx w2) = Some p"
      unfolding inv2 by (cases "mtmd_context_wrapper.ctx (g_mtmd_ctx w2)") auto
    with s2(6)[OF that] show ?thesis by (auto simp: domIff)
  qed
  from inv2 a b c show ?thesis by blast
qed


theorem two_inits_leave_at_most_one_context_witness:
  "model (app loaded_world) = Some 11
   \<and> dom (mtmd_live loaded_world) = set_option (mtmd_context_wrapper.ctx (g_mtmd_ctx loaded_world))
   \<and> mtmd_init_from_file two_token_engine (trace twice_ready_world) = Inr (Some 102)
   \<and> fst (action_init_mtmd two_token_engine init_req ready_world) =
       Inr \<lparr>glue_msg_init_mtmd_res.success = True, error = []\<rparr>
   \<and> dom (mtmd_live twice_ready_world) = {102}
   \<and> mtmd_context_wrapper.ctx (g_mtmd_ctx ready_world) = Some 100
   \<and> hd (tl (trace twice_ready_world)) = Call_mtmd_free 100
   \<and> mtmd_live twice_ready_world 100 = None
   \<and> mtmd_init_from_file two_token_engine (trace reinit_failed_world) = Inr None
   \<and> dom (mtmd_live reinit_failed_world) = {}"
proof -
  have m: "model (app loaded_world) = Some 11"
    and inv: "dom (mtmd_live loaded_world) =
       set_option (mtmd_context_wrapper.ctx (g_mtmd_ctx loaded_world))"
    by (simp_all add: loaded_world_def)
  have run2: "action_init_mtmd two_token_engine init_req ready_world =
      (fst (action_init_mtmd two_token_engine init_req ready_world), twice_ready_world)"
    by (simp add: twice_ready_world_def)
  have run2': "action_init_mtmd two_token_engine missing_req ready_world =
      (fst (action_init_mtmd two_token_engine missing_req ready_world), reinit_failed_world)"
    by (simp add: reinit_failed_world_def)
  have c: "mtmd_context_wrapper.ctx (g_mtmd_ctx ready_world) = Some 100"
    by (simp add: ready_world_eq)
  note t = two_inits_leave_at_most_one_context[OF m inv first_init_eval run2]
  note t' = two_inits_leave_at_most_one_context[OF m inv first_init_eval run2']
  from t twice_ready_eval(4) c
  have a: "fst (action_init_mtmd two_token_engine init_req ready_world) =
       Inr \<lparr>glue_msg_init_mtmd_res.success = True, error = []\<rparr>"
    "hd (tl (trace twice_ready_world)) = Call_mtmd_free 100"
    "mtmd_live twice_ready_world 100 = None"
    by (auto simp: twice_ready_eval(2))
  from t' reinit_failed_eval(4)
  have b: "dom (mtmd_live reinit_failed_world) = {}" by simp
  from m inv a b c twice_ready_eval(3,4) reinit_failed_eval(4) show ?thesis by simp
qed

text \<open>
  The claim as stated fails: when the engine builds no context for the second call,
  the first context has been freed and no live context is left.
\<close>

theorem second_init_failure_counterexample:
  "model (app loaded_world) = Some 11
   \<and> action_init_mtmd two_token_engine init_req loaded_world =
       (Inr \<lparr>glue_msg_init_mtmd_res.success = True, error = []\<rparr>, ready_world)
   \<and> dom (mtmd_live ready_world) = {100}
   \<and> fst (action_init_mtmd two_token_engine missing_req ready_world) =
       Inr \<lparr>glue_msg_init_mtmd_res.success = False,
            error = ''Failed to initialize multimodal context''\<rparr>
   \<and> snd (action_init_mtmd two_token_engine missing_req ready_world) = reinit_failed_world
   \<and> dom (mtmd_live reinit_failed_world) = {}
   \<and> card (dom (mtmd_live reinit_failed_world)) \<noteq> 1"
  by (simp add: first_init_eval reinit_failed_eval)
     (simp add: loaded_world_def ready_world_eq reinit_failed_world_def)

text \<open>
  C8. A \<^verbatim>\<open>processImage\<close> call never changes the multimodal context singleton: the
  pointer and the flag of \<^verbatim>\<open>g_mtmd_ctx\<close> and the set of live engine contexts are the
  same after the call as before, for every call and so for every failed one.
\<close>

theorem process_image_keeps_mtmd_context:
  "g_mtmd_ctx (snd (action_process_image E req w)) = g_mtmd_ctx w
   \<and> mtmd_live (snd (action_process_image E req w)) = mtmd_live w"
  using process_image_frame[of E req w] by (cases "action_process_image E req w") simp

theorem process_image_keeps_mtmd_context_witness:
  "\<not> glue_msg_process_image_res.success (fst (action_process_image failing_engine image_req ready_world))
   \<and> g_mtmd_ctx failed_decode_world =
       \<lparr>mtmd_context_wrapper.ctx = Some 100, initialized = True\<rparr>
   \<and> mtmd_live failed_decode_world = mtmd_live ready_world"
  using process_image_keeps_mtmd_context[of failing_engine image_req ready_world]
  by (simp add: failed_decode_world_def failed_decode_result) (simp add: ready_world_eq)

text \<open>
  C9. If the first token sampled in the generation loop is the end-of-sequence token
  (the only sampling call of the request is its last call, answered with that token),
  the response is \<^verbatim>\<open>success = true\<close> with an empty text and an empty error. In every
  run, no piece is ever requested for the end-of-sequence token, and the text of a
  successful response is exactly the pieces that were requested.
\<close>

theorem eos_first_gives_empty_text:
  assumes "action_process_image E req w = (r, w')" and "model (app w) = Some m"
  shows "(\<forall>s c p evs. new_events w w' = Call_wcommon_sampler_sample s c p # evs
            \<and> filter is_sample evs = []
            \<and> wcommon_sampler_sample E (trace w') = Inr (llama_token_eos E m) \<longrightarrow>
          r = \<lparr>glue_msg_process_image_res.success = True, error = [], result = []\<rparr>)
     \<and> (\<forall>c t. Call_llama_token_to_piece c t \<in> set (new_events w w') \<longrightarrow> t \<noteq> llama_token_eos E m)
     \<and> (glue_msg_process_image_res.success r \<longrightarrow> result r = pieces E (trace w) (new_events w w'))"
proof -
  note f = action_process_image_new[OF assms(1)]
  have a: "r = \<lparr>glue_msg_process_image_res.success = True, error = [], result = []\<rparr>"
    if h: "new_events w w' = Call_wcommon_sampler_sample s c p # evs" "filter is_sample evs = []"
     "wcommon_sampler_sample E (trace w') = Inr (llama_token_eos E m)" for s c p evs
  proof -
    from f(9) h f(1) assms(2) have s: "glue_msg_process_image_res.success r"
      and np: "filter is_piece (new_events w w') = []"
      by (simp_all add: handler_post_def)
    from f(9) s have "glue_msg_process_image_res.error r = []"
      "result r = pieces E (trace w) (new_events w w')" by (simp_all add: handler_post_def)
    with s pieces_no_piece[OF np] show ?thesis by simp
  qed
  have b: "\<forall>c t. Call_llama_token_to_piece c t \<in> set (new_events w w') \<longrightarrow> t \<noteq> llama_token_eos E m"
    using f(8) assms(2) by blast
  have c: "glue_msg_process_image_res.success r \<longrightarrow> result r = pieces E (trace w) (new_events w w')"
    using f(9) by (simp add: handler_post_def)
  from a b c show ?thesis by blast
qed

theorem eos_first_gives_empty_text_witness:
  "hd (new_events ready_world eos_first_world) = Call_wcommon_sampler_sample (Some 17) 12 5
   \<and> filter is_sample (tl (new_events ready_world eos_first_world)) = []
   \<and> wcommon_sampler_sample eos_first_engine (trace eos_first_world)
       = Inr (llama_token_eos eos_first_engine 11)
   \<and> fst (action_process_image eos_first_engine image_req ready_world) =
       \<lparr>glue_msg_process_image_res.success = True, error = [], result = []\<rparr>
   \<and> Call_llama_token_to_piece 12 10 \<in> set (new_events ready_world after_first_world)
   \<and> 10 \<noteq> llama_token_eos two_token_engine 11
   \<and> result (fst (action_process_image two_token_engine image_req ready_world)) =
       pieces two_token_engine (trace ready_world) (new_events ready_world after_first_world)"
proof -
  have run: "action_process_image eos_first_engine image_req ready_world =
      (fst (action_process_image eos_first_engine image_req ready_world), eos_first_world)"
    by (simp add: eos_first_world_def)
  have m: "model (app ready_world) = Some 11" by (simp add: ready_world_eq)
  have ans: "wcommon_sampler_sample eos_first_engine (trace eos_first_world)
       = Inr (llama_token_eos eos_first_engine 11)"
    by (simp add: eos_first_engine_def stub_engine_def)
  have run1: "action_process_image two_token_engine image_req ready_world =
      (fst (action_process_image two_token_engine image_req ready_world), after_first_world)"
    by (simp add: after_first_world_def)
  have ev1: "Call_llama_token_to_piece 12 10 \<in> set (new_events ready_world after_first_world)"
    by (simp add: first_run_events)
  from eos_first_gives_empty_text[OF run m] eos_first_events ans
  have a: "fst (action_process_image eos_first_engine image_req ready_world) =
       \<lparr>glue_msg_process_image_res.success = True, error = [], result = []\<rparr>"
    by simp
  from eos_first_gives_empty_text[OF run1 m] ev1 first_run_result
  have b: "10 \<noteq> llama_token_eos two_token_engine 11"
    "result (fst (action_process_image two_token_engine image_req ready_world)) =
       pieces two_token_engine (trace ready_world) (new_events ready_world after_first_world)"
    by auto
  from a b ev1 ans show ?thesis by (simp add: eos_first_events)
qed

text \<open>
  C10 at an input where the code departs from it. A context is held and initialized,
  and the engine throws something that is not a \<^verbatim>\<open>std::exception\<close> while building
  the new one. The old context has already been freed and the manager is left
  uninitialized, as the claim says, but the call returns no response at all:
  \<^verbatim>\<open>action_init_mtmd\<close> has a clause for \<^verbatim>\<open>std::exception\<close> only (line 114) and the
  exception leaves it. The sibling handler \<^verbatim>\<open>action_process_image\<close> has a
  \<^verbatim>\<open>catch (...)\<close> clause (line 264) and answers the same kind of exception with
  \<^verbatim>\<open>success = false\<close>.
\<close>

theorem reinit_exception_escapes:
  "model (app ready_world) = Some 11
   \<and> mtmd_context_wrapper.ctx (g_mtmd_ctx ready_world) = Some 100
   \<and> initialized (g_mtmd_ctx ready_world)
   \<and> mtmd_live ready_world 100 \<noteq> None
   \<and> mtmd_init_from_file throwing_engine
        (Call_mtmd_init_from_file (mmproj_path init_req) 11
           (make_params throwing_engine init_req) # Call_mtmd_free 100 # trace ready_world)
       = Inl OtherException
   \<and> fst (action_init_mtmd throwing_engine init_req ready_world) = Inl OtherException
   \<and> mtmd_context_wrapper.ctx (g_mtmd_ctx reinit_thrown_world) = None
   \<and> \<not> initialized (g_mtmd_ctx reinit_thrown_world)
   \<and> mtmd_live reinit_thrown_world 100 = None
   \<and> hd (tl (trace reinit_thrown_world)) = Call_mtmd_free 100
   \<and> fst (action_process_image throwing_engine image_req ready_world) =
       \<lparr>glue_msg_process_image_res.success = False,
        error = ''Unknown error occurred during image processing'', result = []\<rparr>"
  by (simp add: reinit_thrown_world_def ready_world_eq throwing_engine_def two_token_engine_def
        action_init_mtmd_def mtmd_free_def run_defs)

theorem reinit_exception_escapes_witness:
  "isl (fst (action_init_mtmd throwing_engine init_req ready_world))
   \<and> \<not> initialized (g_mtmd_ctx reinit_thrown_world)"
  using reinit_exception_escapes by simp

end
